theory Spec2Isabelle
  imports Complex_Main
begin

section \<open>Numbers, errors and strings of the analyzer\<close>

text \<open>
  The analyzer (\<^verbatim>\<open>src/analyzer.py\<close>, class \<^verbatim>\<open>HybridStockAnalyzer\<close>) computes on Python
  floats. The embedding takes a finite float as the real number it stands for;
  infinities and NaN do not occur. In \<^verbatim>\<open>calculate_fair_price\<close> every operation rounds
  its result (see the float arithmetic there); the few operations of the assembler and
  the scorer are exact. A Python
  string is a list of characters; the page is decoded as ISO-8859-1, so a character is
  one code point below 256 and fits \<^typ>\<open>char\<close>. Characters beyond ASCII are written by
  their code point.
\<close>

datatype py_error = ValueError | ZeroDivisionError | TypeError | KeyError | OtherError

text \<open>Python's true division: a zero divisor raises.\<close>

definition py_truediv :: "real \<Rightarrow> real \<Rightarrow> py_error + real" where
  "py_truediv a b = (if b = 0 then Inl ZeroDivisionError else Inr (a / b))"

text \<open>
  The decimal rounding of \<^verbatim>\<open>round(x, 2)\<close>: the nearest multiple of 0.01, a tie going
  to the even one (Python rounds half to even).
\<close>

definition round_half_even :: "real \<Rightarrow> int" where
  "round_half_even x =
     (let f = \<lfloor>x\<rfloor>; d = x - of_int f
      in if d < 1 / 2 then f
         else if 1 / 2 < d then f + 1
         else if even f then f else f + 1)"

definition py_round2 :: "real \<Rightarrow> real" where
  "py_round2 x = of_int (round_half_even (x * 100)) / 100"

subsection \<open>String operations\<close>

text \<open>
  \<^verbatim>\<open>str.isspace\<close> on the code points below 256: tab to carriage return, the four
  separators 28 to 31, the space, NEL (133) and the no-break space (160).
\<close>

definition py_isspace :: "char \<Rightarrow> bool" where
  "py_isspace c = (of_char c \<in> set [9, 10, 11, 12, 13, 28, 29, 30, 31, 32, 133, 160 :: nat])"

definition py_strip :: "string \<Rightarrow> string" where
  "py_strip s = rev (dropWhile py_isspace (rev (dropWhile py_isspace s)))"

text \<open>\<^verbatim>\<open>old in s\<close> for strings: \<open>old\<close> occurs in \<open>s\<close> as a contiguous run.\<close>

fun py_contains :: "string \<Rightarrow> string \<Rightarrow> bool" where
  "py_contains old [] = (old = [])"
| "py_contains old (c # cs) = (take (length old) (c # cs) = old \<or> py_contains old cs)"

text \<open>
  \<^verbatim>\<open>s.replace(old, new)\<close> for a non-empty \<open>old\<close>: the occurrences are replaced from
  the left, and the scan goes on after each replaced occurrence.
\<close>

function py_replace :: "string \<Rightarrow> string \<Rightarrow> string \<Rightarrow> string" where
  "py_replace old new [] = []"
| "py_replace old new (c # cs) =
     (if old \<noteq> [] \<and> take (length old) (c # cs) = old
      then new @ py_replace old new (drop (length old) (c # cs))
      else c # py_replace old new cs)"
  by pat_completeness auto
termination
  by (relation "measure (\<lambda>(old, new, s). length s)") (auto simp: Suc_le_eq)

text \<open>\<^verbatim>\<open>\d\<close> on the code points below 256 is the ten ASCII digits.\<close>

definition is_digit :: "char \<Rightarrow> bool" where
  "is_digit c = (48 \<le> (of_char c :: nat) \<and> (of_char c :: nat) \<le> 57)"

definition digit_val :: "char \<Rightarrow> nat" where
  "digit_val c = of_char c - 48"

text \<open>The value of a run of decimal digits, the most significant first.\<close>

definition digits_val :: "string \<Rightarrow> nat" where
  "digits_val ds = foldl (\<lambda>n c. 10 * n + digit_val c) 0 ds"

text \<open>
  \<^verbatim>\<open>float(s)\<close> on a string of digits, \<^verbatim>\<open>.\<close> and \<^verbatim>\<open>-\<close> (all that is left when
  \<^verbatim>\<open>clean_value\<close> calls it): an optional leading minus sign, then digits with at most
  one point and at least one digit. Anything else raises \<^verbatim>\<open>ValueError\<close>, which is the
  value \<open>None\<close>.
\<close>

definition py_float_unsigned :: "string \<Rightarrow> real option" where
  "py_float_unsigned s =
     (let ip = takeWhile is_digit s; rest = dropWhile is_digit s
      in case rest of
           [] \<Rightarrow> if ip = [] then None else Some (of_nat (digits_val ip))
         | c # fp \<Rightarrow>
             if c = CHR ''.'' \<and> list_all is_digit fp \<and> (ip \<noteq> [] \<or> fp \<noteq> [])
             then Some (of_nat (digits_val ip) + of_nat (digits_val fp) / 10 ^ length fp)
             else None)"

definition py_float :: "string \<Rightarrow> real option" where
  "py_float s =
     (case s of
        [] \<Rightarrow> None
      | c # cs \<Rightarrow>
          if c = CHR ''-'' then map_option uminus (py_float_unsigned cs)
          else py_float_unsigned (c # cs))"

section \<open>\<^verbatim>\<open>clean_value\<close>: the numeric normalizer\<close>

text \<open>The character class kept by \<^verbatim>\<open>re.sub(r'[^\d\.\-]', '', s)\<close>.\<close>

definition keep_char :: "char \<Rightarrow> bool" where
  "keep_char c = (is_digit c \<or> c = CHR ''.'' \<or> c = CHR ''-'')"

definition clean_value :: "string option \<Rightarrow> real" where
  "clean_value text_value =
     (case text_value of
        None \<Rightarrow> 0
      | Some tv \<Rightarrow>
          let text_value_stripped = py_strip tv in
          if text_value_stripped = ''-'' \<or> text_value_stripped = [] then 0
          else
            let cleaned0 = text_value_stripped;
                cleaned1 = (if py_contains ''R$'' cleaned0
                            then py_strip (py_replace ''R$'' [] cleaned0) else cleaned0);
                is_percentage = (CHR ''%'' \<in> set cleaned1);
                cleaned2 = (if is_percentage
                            then py_strip (py_replace ''%'' [] cleaned1) else cleaned1);
                cleaned3 = py_replace ''.'' [] cleaned2;
                cleaned4 = py_replace '','' ''.'' cleaned3;
                cleaned5 = filter keep_char cleaned4
            in if cleaned5 \<in> set [[], ''-''] then 0
               else (case py_float cleaned5 of
                       Some v \<Rightarrow> if is_percentage then v / 100 else v
                     | None \<Rightarrow> 0))"

section \<open>The financial record\<close>

text \<open>
  The record built by \<^verbatim>\<open>extract_financial_data\<close> is a dictionary from key to a float
  or, for the company name, a string.
\<close>

datatype pyval = Num real | Str string

type_synonym financial_data = "string \<rightharpoonup> pyval"

text \<open>Running one step after another, the first exception ending the run.\<close>

definition bind_err :: "py_error + 'a \<Rightarrow> ('a \<Rightarrow> py_error + 'b) \<Rightarrow> py_error + 'b" where
  "bind_err m f = (case m of Inl e \<Rightarrow> Inl e | Inr x \<Rightarrow> f x)"

text \<open>
  \<^verbatim>\<open>data.get(key, 0.0)\<close> read as a number. The functions below compare the value
  with a float or multiply it by one; on a string either raises \<^verbatim>\<open>TypeError\<close>.
\<close>

definition get_float :: "financial_data \<Rightarrow> string \<Rightarrow> py_error + real" where
  "get_float data k =
     (case data k of
        None \<Rightarrow> Inr 0
      | Some (Num r) \<Rightarrow> Inr r
      | Some (Str s) \<Rightarrow> Inl TypeError)"

section \<open>The parsed page\<close>

text \<open>
  The page is a BeautifulSoup tree, a library outside the repository. The embedding
  keeps of it the answers to the queries the analyzer makes.

  A cell of a table row is the \<^verbatim>\<open>.string\<close> of the cell's first \<^verbatim>\<open>span\<close> of class
  \<^verbatim>\<open>txt\<close>: \<open>None\<close> when the cell has no such span or the span has no single string.
  A row is its cells of class \<^verbatim>\<open>label\<close>, its cells of class \<^verbatim>\<open>data\<close>, and whether
  it holds a cell of class \<^verbatim>\<open>nivel2\<close> with a \<^verbatim>\<open>txt\<close> span (a heading row).
\<close>

type_synonym cell = "string option"

record table_row =
  label_cells :: "cell list"
  data_cells :: "cell list"
  nivel2_heading :: bool

type_synonym html_table = "table_row list"

text \<open>
  A \<^verbatim>\<open>span\<close> of class \<^verbatim>\<open>txt\<close>: its \<^verbatim>\<open>.string\<close>; whether its enclosing \<^verbatim>\<open>td\<close> exists
  and has the class \<^verbatim>\<open>label\<close>; whether that \<^verbatim>\<open>td\<close> has a following sibling \<^verbatim>\<open>td\<close> of
  class \<^verbatim>\<open>data\<close>; the \<^verbatim>\<open>.string\<close> of the \<^verbatim>\<open>txt\<close> span inside that sibling; and the
  same through the following sibling \<^verbatim>\<open>td\<close> of any class (\<open>None\<close> when a step of
  the way is missing).
\<close>

record span_tag =
  span_string :: "string option"
  in_label_td :: bool
  has_data_sibling :: bool
  data_sibling_text :: "string option"
  next_sibling_text :: "string option"

text \<open>
  The page: the spans of \<^verbatim>\<open>find_all('span', class_='txt')\<close> in document order; for a
  title, the table around the first span whose class is exactly \<^verbatim>\<open>txt\<close> and whose
  stripped string is the title (\<open>Inr None\<close> when there is no such span or no table
  around it, \<open>Inl\<close> when the search raises); and the first span whose class is exactly
  \<^verbatim>\<open>txt\<close> and whose stripped string is \<^verbatim>\<open>Empresa\<close>.
\<close>

record html_soup =
  txt_spans :: "span_tag list"
  titled_table :: "string \<Rightarrow> py_error + html_table option"
  empresa_span :: "span_tag option"

section \<open>\<^verbatim>\<open>_extract_table_data\<close>: the table extractor\<close>

definition dre_titles :: "string list" where
  "dre_titles = [''Dados demonstrativos de resultados'', ''Demonstrativo de Resultados'']"

definition dre_labels :: "string list" where
  "dre_labels = [''Receita L'' @ [CHR 0xED] @ ''quida'', ''EBIT'', ''Lucro L'' @ [CHR 0xED] @ ''quido'']"

definition suffix_12m :: string where
  "suffix_12m = '' ('' @ [CHR 0xDA] @ ''ltimos 12 meses)''"

definition suffix_3m :: string where
  "suffix_3m = '' ('' @ [CHR 0xDA] @ ''ltimos 3 meses)''"

text \<open>
  The loop over the candidate titles: the first title with a table wins; an exception
  of the search is logged and the loop goes on.
\<close>

fun find_table :: "html_soup \<Rightarrow> string list \<Rightarrow> (html_table \<times> string) option" where
  "find_table html_soup [] = None"
| "find_table html_soup (title_text_candidate # rest) =
     (case titled_table html_soup title_text_candidate of
        Inr (Some found_table) \<Rightarrow> Some (found_table, title_text_candidate)
      | Inr None \<Rightarrow> find_table html_soup rest
      | Inl e \<Rightarrow> find_table html_soup rest)"

text \<open>
  The body of the inner loop for one label cell and the data cell of the same index.
  The state is \<^verbatim>\<open>table_data\<close> and \<^verbatim>\<open>dre_labels_order\<close>.
\<close>

type_synonym extract_state = "(string \<rightharpoonup> real) \<times> string list"

definition key_to_store :: "bool \<Rightarrow> string list \<Rightarrow> string \<Rightarrow> string" where
  "key_to_store is_dre_table dre_labels_order label_orig =
     (if is_dre_table \<and> label_orig \<in> set dre_labels
      then (if label_orig \<notin> set dre_labels_order then label_orig @ suffix_12m
            else label_orig @ suffix_3m)
      else label_orig)"

definition store_pair :: "bool \<Rightarrow> extract_state \<Rightarrow> cell \<times> cell \<Rightarrow> extract_state" where
  "store_pair is_dre_table st p =
     (case st of (table_data, dre_labels_order) \<Rightarrow>
        (case p of
           (Some label_string, Some data_string) \<Rightarrow>
             if label_string \<noteq> [] \<and> data_string \<noteq> []
             then
               let label_orig = py_strip label_string;
                   value_str = py_strip data_string;
                   key = key_to_store is_dre_table dre_labels_order label_orig;
                   order' = (if is_dre_table \<and> label_orig \<in> set dre_labels
                                \<and> label_orig \<notin> set dre_labels_order
                             then dre_labels_order @ [label_orig] else dre_labels_order)
               in if table_data key = None
                  then (table_data(key \<mapsto> clean_value (Some value_str)), order')
                  else (table_data, order')
             else st
         | _ \<Rightarrow> st))"

text \<open>
  One row. \<^verbatim>\<open>for i in range(len(label_cells)): if i < len(data_cells)\<close> visits the
  pairs of \<open>zip\<close>. The first row is skipped when it has no label cell, no data cell and
  is a heading row.
\<close>

definition process_row :: "bool \<Rightarrow> extract_state \<Rightarrow> nat \<times> table_row \<Rightarrow> extract_state" where
  "process_row is_dre_table st ir =
     (case ir of (row_idx, row) \<Rightarrow>
        if label_cells row = [] \<and> data_cells row = [] \<and> row_idx = 0 \<and> nivel2_heading row
        then st
        else foldl (store_pair is_dre_table) st (zip (label_cells row) (data_cells row)))"

definition extract_table_data :: "html_soup \<Rightarrow> string list \<Rightarrow> (string \<rightharpoonup> real)" where
  "extract_table_data html_soup table_title_texts =
     (case find_table html_soup table_title_texts of
        Some (found_table, title_text_found) \<Rightarrow>
          let is_dre_table = (title_text_found \<in> set dre_titles)
          in fst (foldl (process_row is_dre_table) (Map.empty, [])
                    (zip [0 ..< length found_table] found_table))
      | None \<Rightarrow> Map.empty)"

section \<open>\<^verbatim>\<open>extract_financial_data\<close>: the indicator assembler\<close>

definition main_indicators_mapping :: "(string \<times> string) list" where
  "main_indicators_mapping =
     [(''Cota'' @ [CHR 0xE7] @ [CHR 0xE3] @ ''o'', ''cotacao_atual''),
      (''P/L'', ''preco_lucro''),
      (''P/VP'', ''preco_valor_patrimonial''),
      (''P/EBIT'', ''preco_ebit''),
      (''PSR'', ''price_sales_ratio''),
      (''EV / EBITDA'', ''ev_ebitda''),
      (''Div. Yield'', ''dividend_yield''),
      (''LPA'', ''lucro_por_acao''),
      (''VPA'', ''valor_patrimonial_acao''),
      (''Marg. Bruta'', ''margem_bruta''),
      (''Marg. EBIT'', ''margem_ebit''),
      (''Marg. L'' @ [CHR 0xED] @ ''quida'', ''margem_liquida''),
      (''ROE'', ''roe''),
      (''ROIC'', ''roic''),
      (''Liquidez Corr'', ''liquidez_corrente''),
      (''Div Br/ Patrim'', ''divida_bruta_patrimonio''),
      (''Cres. Rec (5a)'', ''cres_receita_5a''),
      (''Valor da Firma'', ''enterprise_value''),
      (''Nro. A'' @ [CHR 0xE7] @ [CHR 0xF5] @ ''es'', ''numero_acoes'')]"

text \<open>
  The search for the label of one indicator: the first span whose stripped string is
  the label and whose \<^verbatim>\<open>td\<close> has the class \<^verbatim>\<open>label\<close>; then the text of the value
  cell, the \<^verbatim>\<open>data\<close> sibling or, failing that, the next sibling.
\<close>

definition span_matches :: "string \<Rightarrow> span_tag \<Rightarrow> bool" where
  "span_matches display_label sp =
     ((case span_string sp of
         Some span_content \<Rightarrow> span_content \<noteq> [] \<and> py_strip span_content = display_label
       | None \<Rightarrow> False)
      \<and> in_label_td sp)"

definition text_to_convert :: "span_tag list \<Rightarrow> string \<Rightarrow> string option" where
  "text_to_convert all_spans display_label =
     (case List.find (span_matches display_label) all_spans of
        None \<Rightarrow> None
      | Some found_span \<Rightarrow>
          (case (if has_data_sibling found_span then data_sibling_text found_span
                 else next_sibling_text found_span) of
             Some value_string \<Rightarrow>
               if value_string \<noteq> [] then Some (py_strip value_string) else None
           | None \<Rightarrow> None))"

definition main_indicators :: "html_soup \<Rightarrow> financial_data" where
  "main_indicators html_soup =
     foldl (\<lambda>data lk. case lk of (display_label, key) \<Rightarrow>
              data(key \<mapsto> Num (clean_value (text_to_convert (txt_spans html_soup) display_label))))
       Map.empty main_indicators_mapping"

text \<open>\<^verbatim>\<open>d.get(key, default)\<close> on a table of floats.\<close>

definition get_or :: "(string \<rightharpoonup> real) \<Rightarrow> string \<Rightarrow> real \<Rightarrow> real" where
  "get_or d key dflt = (case d key of Some v \<Rightarrow> v | None \<Rightarrow> dflt)"

definition balanco_titles :: "string list" where
  "balanco_titles = [''Dados Balan'' @ [CHR 0xE7] @ ''o Patrimonial'', ''Balan'' @ [CHR 0xE7] @ ''o Patrimonial'']"

text \<open>
  The fields taken from the two tables. The tests \<^verbatim>\<open>data[...] == 0.0\<close> read back a
  value just stored, here the local of the same name; the two warnings are log lines
  only. When the default of \<^verbatim>\<open>patrimonio_liquido_total\<close> is taken it is whatever the
  record holds under that key, or 0.0.
\<close>

definition table_fields :: "html_soup \<Rightarrow> financial_data \<Rightarrow> financial_data" where
  "table_fields html_soup data =
     (let dados_dre = extract_table_data html_soup dre_titles;
          ebit_12m = get_or dados_dre (''EBIT'' @ suffix_12m) (get_or dados_dre ''EBIT'' 0);
          lucro_liquido_12m = get_or dados_dre (''Lucro L'' @ [CHR 0xED] @ ''quido'' @ suffix_12m)
                                (get_or dados_dre (''Lucro L'' @ [CHR 0xED] @ ''quido'') 0);
          receita_liquida_12m = get_or dados_dre (''Receita L'' @ [CHR 0xED] @ ''quida'' @ suffix_12m)
                                  (get_or dados_dre (''Receita L'' @ [CHR 0xED] @ ''quida'') 0);
          balanco_data = extract_table_data html_soup balanco_titles;
          ativo_circulante = get_or balanco_data ''Ativo Circulante'' 0;
          passivo_circulante = get_or balanco_data ''Passivo Circulante'' 0;
          imobilizado0 = get_or balanco_data ''Ativo Imobilizado''
                           (get_or balanco_data ''Imobilizado'' 0);
          ativo_imobilizado_liquido =
            (if imobilizado0 = 0 then get_or balanco_data (''Ativo N'' @ [CHR 0xE3] @ ''o Circulante'') 0
             else imobilizado0);
          patrimonio_liquido_total =
            (case balanco_data (''Patrim. L'' @ [CHR 0xED] @ ''q'') of
               Some v \<Rightarrow> Num v
             | None \<Rightarrow> (case data ''patrimonio_liquido_total'' of
                          Some x \<Rightarrow> x | None \<Rightarrow> Num 0))
      in data(''ebit_12m'' \<mapsto> Num ebit_12m,
              ''lucro_liquido_12m'' \<mapsto> Num lucro_liquido_12m,
              ''receita_liquida_12m'' \<mapsto> Num receita_liquida_12m,
              ''ativo_circulante'' \<mapsto> Num ativo_circulante,
              ''passivo_circulante'' \<mapsto> Num passivo_circulante,
              ''ativo_imobilizado_liquido'' \<mapsto> Num ativo_imobilizado_liquido,
              ''patrimonio_liquido_total'' \<mapsto> patrimonio_liquido_total))"

text \<open>The company name: the text beside the label \<^verbatim>\<open>Empresa\<close>, or \<^verbatim>\<open>N/A\<close>.\<close>

definition nome_empresa :: "html_soup \<Rightarrow> string" where
  "nome_empresa html_soup =
     (case empresa_span html_soup of
        None \<Rightarrow> ''N/A''
      | Some sp \<Rightarrow>
          if in_label_td sp \<and> has_data_sibling sp
          then (case data_sibling_text sp of
                  Some nome \<Rightarrow> if nome \<noteq> [] then py_strip nome else ''N/A''
                | None \<Rightarrow> ''N/A'')
          else ''N/A'')"

text \<open>
  \<^verbatim>\<open>data[key]\<close> read as a number: a missing key raises \<^verbatim>\<open>KeyError\<close>, and the
  arithmetic that follows raises \<^verbatim>\<open>TypeError\<close> on a string.
\<close>

definition get_item :: "financial_data \<Rightarrow> string \<Rightarrow> py_error + real" where
  "get_item data k =
     (case data k of
        None \<Rightarrow> Inl KeyError
      | Some (Num r) \<Rightarrow> Inr r
      | Some (Str s) \<Rightarrow> Inl TypeError)"

text \<open>
  The Greenblatt block, which reads its inputs back from the record. A ratio is
  \<^verbatim>\<open>(a / b) if b else 0.0\<close>, where a float is false exactly when it is zero.
\<close>

definition ratio_or_zero :: "real \<Rightarrow> real \<Rightarrow> py_error + real" where
  "ratio_or_zero a b = (if b \<noteq> 0 then py_truediv a b else Inr 0)"

definition greenblatt_fields :: "financial_data \<Rightarrow> py_error + financial_data" where
  "greenblatt_fields data =
     bind_err (get_float data ''enterprise_value'') (\<lambda>ev_g.
     bind_err (get_float data ''ebit_12m'') (\<lambda>ebit_g.
     bind_err (get_item data ''ativo_circulante'') (\<lambda>ativo_circulante.
     bind_err (get_item data ''passivo_circulante'') (\<lambda>passivo_circulante.
     bind_err (get_item data ''ativo_imobilizado_liquido'') (\<lambda>nfa_g.
       let nwc_g = ativo_circulante - passivo_circulante;
           capital_investido_g = nwc_g + nfa_g
       in
       bind_err (ratio_or_zero ebit_g ev_g) (\<lambda>earnings_yield.
       bind_err (ratio_or_zero ebit_g capital_investido_g) (\<lambda>return_on_capital.
         Inr (data(''greenblatt_nwc_calculado'' \<mapsto> Num nwc_g,
                   ''greenblatt_nfa_usado'' \<mapsto> Num nfa_g,
                   ''greenblatt_ebit_usado'' \<mapsto> Num ebit_g,
                   ''greenblatt_ev_usado'' \<mapsto> Num ev_g,
                   ''greenblatt_earnings_yield'' \<mapsto> Num earnings_yield,
                   ''greenblatt_return_on_capital'' \<mapsto> Num return_on_capital)))))))))"

text \<open>
  The whole function. Its second argument, the ticker as typed, is used in log lines
  only and is left out.
\<close>

definition extract_financial_data :: "html_soup \<Rightarrow> py_error + financial_data" where
  "extract_financial_data html_soup =
     greenblatt_fields
       ((table_fields html_soup (main_indicators html_soup))
          (''nome_empresa_completo'' \<mapsto> Str (nome_empresa html_soup)))"

section \<open>\<^verbatim>\<open>calculate_fair_price\<close>: the valuation models\<close>

subsection \<open>Float arithmetic\<close>

text \<open>
  The branches of this function and the cents it returns depend on how each
  intermediate result is rounded, so here every operation rounds. A float is still the
  real number it stands for; \<open>rnd\<close> takes the exact result of an operation to the float
  that the operation returns (for IEEE doubles, the nearest one), and \<open>fsum\<close> is the
  builtin \<^verbatim>\<open>sum\<close> on a list of floats. Both are left open: a statement proved for every
  \<open>F\<close> holds for the doubles of the interpreter, which are one such \<open>F\<close>
  (\<open>double_ops\<close> below). Results beyond the range of the doubles (infinities, NaN) are
  outside the embedding.
\<close>

record float_ops =
  rnd :: "real \<Rightarrow> real"
  fsum :: "real list \<Rightarrow> real"

text \<open>A decimal literal of the source is the float nearest to it.\<close>

definition fl_lit :: "float_ops \<Rightarrow> real \<Rightarrow> real" where
  "fl_lit F x = rnd F x"

definition fl_add :: "float_ops \<Rightarrow> real \<Rightarrow> real \<Rightarrow> real" where
  "fl_add F a b = rnd F (a + b)"

definition fl_sub :: "float_ops \<Rightarrow> real \<Rightarrow> real \<Rightarrow> real" where
  "fl_sub F a b = rnd F (a - b)"

definition fl_mul :: "float_ops \<Rightarrow> real \<Rightarrow> real \<Rightarrow> real" where
  "fl_mul F a b = rnd F (a * b)"

text \<open>The quotient of two floats, and the division that raises on a zero divisor.\<close>

definition fl_div :: "float_ops \<Rightarrow> real \<Rightarrow> real \<Rightarrow> real" where
  "fl_div F a b = rnd F (a / b)"

definition fl_truediv :: "float_ops \<Rightarrow> real \<Rightarrow> real \<Rightarrow> py_error + real" where
  "fl_truediv F a b = (if b = 0 then Inl ZeroDivisionError else Inr (fl_div F a b))"

text \<open>\<^verbatim>\<open>math.sqrt\<close>: a negative argument raises \<^verbatim>\<open>ValueError\<close>.\<close>

definition fl_sqrt :: "float_ops \<Rightarrow> real \<Rightarrow> py_error + real" where
  "fl_sqrt F x = (if x < 0 then Inl ValueError else Inr (rnd F (sqrt x)))"

text \<open>
  \<^verbatim>\<open>round(x, 2)\<close> on a float: the decimal rounding of its exact value, and the float
  nearest to that.
\<close>

definition fl_round2 :: "float_ops \<Rightarrow> real \<Rightarrow> real" where
  "fl_round2 F x = rnd F (py_round2 x)"

text \<open>Exact arithmetic: nothing is rounded but the cents.\<close>

definition exact_ops :: float_ops where
  "exact_ops = \<lparr>rnd = (\<lambda>x. x), fsum = sum_list\<rparr>"

text \<open>
  The doubles of the interpreter, on the normal range: a real number other than 0 goes
  to the nearest multiple of \<open>2 ^ (e - 52)\<close>, \<open>e\<close> its binary exponent, a tie to the
  even multiple. The builtin \<^verbatim>\<open>sum\<close> adds from the left, starting at 0 (from Python
  3.12 on it also compensates the rounding errors of the partial sums). Overflow and
  the subnormal numbers are not represented.
\<close>

definition double_rnd :: "real \<Rightarrow> real" where
  "double_rnd x =
     (if x = 0 then 0
      else let ulp = 2 powr (of_int \<lfloor>log 2 \<bar>x\<bar>\<rfloor> - 52)
           in of_int (round_half_even (x / ulp)) * ulp)"

definition double_ops :: float_ops where
  "double_ops = \<lparr>rnd = double_rnd, fsum = foldl (\<lambda>a b. double_rnd (a + b)) 0\<rparr>"

subsection \<open>The five blocks\<close>

text \<open>
  The Graham block. \<^verbatim>\<open>res['graham']\<close> starts at 0.0; the \<^verbatim>\<open>ValueError\<close> of
  \<^verbatim>\<open>math.sqrt\<close> is caught and leaves it there.
\<close>

definition graham_model :: "float_ops \<Rightarrow> real \<Rightarrow> real \<Rightarrow> real" where
  "graham_model F lpa vpa =
     (if lpa > 0 \<and> vpa > 0
      then (case fl_sqrt F (fl_mul F (fl_mul F (fl_lit F 22.5) lpa) vpa) of
              Inr graham_value \<Rightarrow> fl_round2 F graham_value
            | Inl e \<Rightarrow> 0)
      else 0)"

text \<open>The DDM block. Its two divisions are not inside a \<^verbatim>\<open>try\<close>.\<close>

definition ddm_model ::
  "float_ops \<Rightarrow> real \<Rightarrow> real \<Rightarrow> real \<Rightarrow> real \<Rightarrow> py_error + real" where
  "ddm_model F cotacao div_yield roe lpa =
     (if cotacao > 0 \<and> div_yield > 0 \<and> roe > 0 \<and> lpa \<noteq> 0
      then
        let dpa = fl_mul F cotacao div_yield in
        bind_err (fl_truediv F dpa lpa) (\<lambda>payout_ratio.
          if 0 \<le> payout_ratio \<and> payout_ratio \<le> 1
          then
            let retention_ratio = fl_sub F 1 payout_ratio;
                g = fl_mul F roe retention_ratio;
                required_rate_of_return = fl_lit F 0.12
            in if required_rate_of_return > g \<and> g \<ge> 0
               then
                 let d1 = fl_mul F dpa (fl_add F 1 g);
                     denominator_ddm = fl_sub F required_rate_of_return g
                 in if denominator_ddm > fl_lit F (1 / 1000000)
                    then bind_err (fl_truediv F d1 denominator_ddm) (\<lambda>ddm_value.
                           Inr (fl_round2 F (min (max ddm_value 0) (fl_mul F cotacao 5))))
                    else Inr 0
               else Inr 0
          else Inr 0)
      else Inr 0)"

text \<open>The adjusted P/E block. \<^verbatim>\<open>score_pl\<close> is an integer, exact as a float.\<close>

definition pe_adjusted_model :: "float_ops \<Rightarrow> real \<Rightarrow> real \<Rightarrow> real \<Rightarrow> real" where
  "pe_adjusted_model F lpa roe liquidez_corrente =
     (let score_pl0 = (if roe > fl_lit F 0.15 then 3 else if roe > fl_lit F 0.10 then 2 else 0);
          score_pl = (if liquidez_corrente > fl_lit F 1.5 then score_pl0 + 2 else score_pl0);
          pl_justo_multiplicador = min (fl_add F 8 (fl_mul F score_pl (fl_lit F 1.5))) 25
      in fl_round2 F (fl_mul F lpa pl_justo_multiplicador))"

text \<open>The adjusted P/VP block.\<close>

definition pvp_adjusted_model :: "float_ops \<Rightarrow> real \<Rightarrow> real \<Rightarrow> real" where
  "pvp_adjusted_model F vpa roe =
     (let multiplicador_pvp =
            (if roe > fl_lit F 0.20 then fl_lit F 2.5
             else if roe > fl_lit F 0.15 then fl_lit F 2.0
             else if roe > fl_lit F 0.10 then fl_lit F 1.5 else fl_lit F 1.0)
      in fl_round2 F (fl_mul F vpa multiplicador_pvp))"

text \<open>
  The weighted mean. The loop over the four weighted keys keeps the values that are
  strictly positive, each with its weight (the lists \<^verbatim>\<open>vals\<close> and \<^verbatim>\<open>wts\<close>, zipped).
\<close>

definition model_weights :: "float_ops \<Rightarrow> (string \<times> real) list" where
  "model_weights F =
     [(''graham'', fl_lit F 0.3), (''ddm'', fl_lit F 0.2),
      (''pe_adjusted'', fl_lit F 0.3), (''pvp_adjusted'', fl_lit F 0.2)]"

fun positive_models :: "(string \<rightharpoonup> real) \<Rightarrow> (string \<times> real) list \<Rightarrow> (real \<times> real) list" where
  "positive_models res [] = []"
| "positive_models res ((key, weight) # rest) =
     (let val = (case res key of Some v \<Rightarrow> v | None \<Rightarrow> 0)
      in if val > 0 then (val, weight) # positive_models res rest
         else positive_models res rest)"

text \<open>
  The terms \<^verbatim>\<open>v_i * (w_i / total_wt)\<close> of the generator, which \<^verbatim>\<open>sum\<close> then adds up.
\<close>

fun weighted_terms :: "float_ops \<Rightarrow> (real \<times> real) list \<Rightarrow> real \<Rightarrow> py_error + real list" where
  "weighted_terms F [] total_wt = Inr []"
| "weighted_terms F ((v_i, w_i) # rest) total_wt =
     bind_err (fl_truediv F w_i total_wt) (\<lambda>q.
     bind_err (weighted_terms F rest total_wt) (\<lambda>ts. Inr (fl_mul F v_i q # ts)))"

definition weighted_average :: "float_ops \<Rightarrow> (string \<rightharpoonup> real) \<Rightarrow> py_error + real" where
  "weighted_average F res =
     (let vw = positive_models res (model_weights F);
          wts = map snd vw
      in if vw \<noteq> []
         then let total_wt = fsum F wts
              in if total_wt > 0
                 then bind_err (weighted_terms F vw total_wt) (\<lambda>ts.
                        Inr (fl_round2 F (fsum F ts)))
                 else Inr 0
         else Inr 0)"

text \<open>
  The whole function. Of the five fields read at the top, \<^verbatim>\<open>dividend_yield\<close> is
  looked at only when the price is positive (the \<^verbatim>\<open>and\<close> chain of the DDM test stops
  at its first false operand); every other field is compared or multiplied on every
  path. All failures are the same \<^verbatim>\<open>TypeError\<close>, so their order does not show.
\<close>

definition calculate_fair_price ::
  "float_ops \<Rightarrow> financial_data \<Rightarrow> py_error + (string \<rightharpoonup> real)" where
  "calculate_fair_price F data =
     bind_err (get_float data ''lucro_por_acao'') (\<lambda>lpa.
     bind_err (get_float data ''valor_patrimonial_acao'') (\<lambda>vpa.
     bind_err (get_float data ''cotacao_atual'') (\<lambda>cotacao.
     bind_err (get_float data ''roe'') (\<lambda>roe.
     bind_err (if cotacao > 0 then get_float data ''dividend_yield'' else Inr 0) (\<lambda>div_yield.
     bind_err (get_float data ''liquidez_corrente'') (\<lambda>liquidez_corrente.
     bind_err (ddm_model F cotacao div_yield roe lpa) (\<lambda>ddm.
       let res = [''graham'' \<mapsto> graham_model F lpa vpa,
                  ''ddm'' \<mapsto> ddm,
                  ''pe_adjusted'' \<mapsto> pe_adjusted_model F lpa roe liquidez_corrente,
                  ''pvp_adjusted'' \<mapsto> pvp_adjusted_model F vpa roe]
       in bind_err (weighted_average F res) (\<lambda>average.
            Inr (res(''average'' \<mapsto> average))))))))))"

section \<open>\<^verbatim>\<open>generate_investment_analysis\<close>: the recommendation scorer\<close>

record analysis =
  recommendation :: string
  risk_level :: string
  strengths :: "string list"
  weaknesses :: "string list"
  summary :: string
  score :: int

text \<open>
  The notes and the summary are f-strings. How Python prints a float
  (\<^verbatim>\<open>{x:.2%}\<close>, \<^verbatim>\<open>{x:.2f}\<close>, \<^verbatim>\<open>{x}\<close>) or an integer and how \<^verbatim>\<open>str.upper\<close> maps a
  string belong to the language, not to the analyzer; they are parameters.
\<close>

record py_format =
  fmt_percent2 :: "real \<Rightarrow> string"
  fmt_fixed2 :: "real \<Rightarrow> string"
  fmt_float :: "real \<Rightarrow> string"
  fmt_int :: "int \<Rightarrow> string"
  str_upper :: "string \<Rightarrow> string"

text \<open>
  The state of a run is the \<^verbatim>\<open>analysis\<close> dictionary and the local
  \<^verbatim>\<open>score_analise\<close>.
\<close>

definition recommend :: "string \<Rightarrow> int \<Rightarrow> analysis \<times> int \<Rightarrow> analysis \<times> int" where
  "recommend r inc st = (case st of (a, sc) \<Rightarrow> (a\<lparr>recommendation := r\<rparr>, sc + inc))"

definition add_strength :: "string \<Rightarrow> int \<Rightarrow> analysis \<times> int \<Rightarrow> analysis \<times> int" where
  "add_strength note inc st =
     (case st of (a, sc) \<Rightarrow> (a\<lparr>strengths := strengths a @ [note]\<rparr>, sc + inc))"

definition add_weakness :: "string \<Rightarrow> int \<Rightarrow> analysis \<times> int \<Rightarrow> analysis \<times> int" where
  "add_weakness note inc st =
     (case st of (a, sc) \<Rightarrow> (a\<lparr>weaknesses := weaknesses a @ [note]\<rparr>, sc + inc))"

text \<open>The \<^verbatim>\<open>if\<close>/\<^verbatim>\<open>elif\<close> chain over \<^verbatim>\<open>discount_margin\<close>, in the source's order.\<close>

definition margin_tier :: "real \<Rightarrow> analysis \<times> int \<Rightarrow> analysis \<times> int" where
  "margin_tier discount_margin st =
     (if discount_margin > 0.30 then recommend ''COMPRAR FORTE'' 3 st
      else if discount_margin > 0.15 then recommend ''COMPRAR'' 2 st
      else if discount_margin > 0.05 then recommend ''COMPRAR FRACO'' 1 st
      else if discount_margin < - 0.15 then recommend ''VENDER FRACO'' (- 1) st
      else if discount_margin < - 0.30 then recommend ''VENDER'' (- 2) st
      else if discount_margin < - 0.50 then recommend ''VENDER FORTE'' (- 3) st
      else st)"

definition valuation_step ::
  "py_format \<Rightarrow> real \<Rightarrow> real \<Rightarrow> analysis \<times> int \<Rightarrow> py_error + analysis \<times> int" where
  "valuation_step F preco_justo_medio cotacao_atual st =
     (if preco_justo_medio > 0 \<and> cotacao_atual > 0
      then bind_err (py_truediv (preco_justo_medio - cotacao_atual) cotacao_atual)
             (\<lambda>discount_margin.
                Inr (add_strength
                       (''Potencial de valoriza'' @ [CHR 0xE7] @ [CHR 0xE3] @ ''o (vs Cota'' @ [CHR 0xE7] @ [CHR 0xE3] @ ''o Atual): '' @ fmt_percent2 F discount_margin)
                       0 (margin_tier discount_margin st)))
      else if cotacao_atual \<le> 0 \<and> preco_justo_medio > 0
      then Inr (recommend (''ANALISAR (Cota'' @ [CHR 0xE7] @ [CHR 0xE3] @ ''o Anormal)'') 0 st)
      else if preco_justo_medio \<le> 0 \<and> cotacao_atual > 0
      then Inr (add_weakness
                  (''M'' @ [CHR 0xE9] @ ''dia dos pre'' @ [CHR 0xE7] @ ''os justos (positivos) n'' @ [CHR 0xE3] @ ''o '' @ [CHR 0xE9] @ '' conclusiva ou '' @ [CHR 0xE9] @ '' zero.'')
                  0 (recommend ''CAUTELA'' 0 st))
      else Inr st)"

definition roe_step :: "py_format \<Rightarrow> real \<Rightarrow> analysis \<times> int \<Rightarrow> analysis \<times> int" where
  "roe_step F roe st =
     (if roe > 0.20 then add_strength (''ROE Excelente: '' @ fmt_percent2 F roe) 2 st
      else if roe > 0.10 then add_strength (''ROE Bom: '' @ fmt_percent2 F roe) 1 st
      else if roe < 0 \<and> roe \<noteq> 0
      then add_weakness (''ROE Negativo: '' @ fmt_percent2 F roe) (- 2) st
      else st)"

definition roic_step :: "py_format \<Rightarrow> real \<Rightarrow> analysis \<times> int \<Rightarrow> analysis \<times> int" where
  "roic_step F roic st =
     (if roic > 0.15 then add_strength (''ROIC Excelente: '' @ fmt_percent2 F roic) 2 st
      else if roic > 0.10 then add_strength (''ROIC Bom: '' @ fmt_percent2 F roic) 1 st
      else if roic < 0 \<and> roic \<noteq> 0
      then add_weakness (''ROIC Negativo: '' @ fmt_percent2 F roic) (- 2) st
      else st)"

definition pl_step :: "py_format \<Rightarrow> real \<Rightarrow> analysis \<times> int \<Rightarrow> analysis \<times> int" where
  "pl_step F pl st =
     (if 0 < pl \<and> pl < 10
      then add_strength (''P/L (Pre'' @ [CHR 0xE7] @ ''o/Lucro) Baixo: '' @ fmt_fixed2 F pl) 1 st
      else if pl < 0
      then add_weakness (''P/L Negativo (Preju'' @ [CHR 0xED] @ ''zo): '' @ fmt_fixed2 F pl) (- 2) st
      else st)"

definition div_br_patrim_step ::
  "py_format \<Rightarrow> real \<Rightarrow> analysis \<times> int \<Rightarrow> analysis \<times> int" where
  "div_br_patrim_step F div_br_patrim st =
     (if 0 \<le> div_br_patrim \<and> div_br_patrim < 0.5
      then add_strength (''Endividamento (D'' @ [CHR 0xED] @ ''v. Bruta/PL) Baixo: '' @ fmt_fixed2 F div_br_patrim) 1 st
      else if div_br_patrim > 1.0
      then add_weakness (''Endividamento (D'' @ [CHR 0xED] @ ''v. Bruta/PL) Alto: '' @ fmt_fixed2 F div_br_patrim) (- 1) st
      else if div_br_patrim < 0
      then add_weakness (''D'' @ [CHR 0xED] @ ''v. Bruta/PL Negativo (PL Negativo?): '' @ fmt_fixed2 F div_br_patrim) (- 2) st
      else st)"

definition liq_corr_step :: "py_format \<Rightarrow> real \<Rightarrow> analysis \<times> int \<Rightarrow> analysis \<times> int" where
  "liq_corr_step F liq_corr st =
     (if liq_corr > 2.0
      then add_strength (''Liquidez Corrente '' @ [CHR 0xD3] @ ''tima: '' @ fmt_fixed2 F liq_corr) 1 st
      else if liq_corr < 1.0 \<and> liq_corr \<ge> 0
      then add_weakness (''Liquidez Corrente Baixa: '' @ fmt_fixed2 F liq_corr) (- 1) st
      else st)"

definition cres_receita_step ::
  "py_format \<Rightarrow> real \<Rightarrow> analysis \<times> int \<Rightarrow> analysis \<times> int" where
  "cres_receita_step F cres_receita st =
     (if cres_receita > 0.10
      then add_strength
             (''Crescimento da Receita (5a) Bom: '' @ fmt_percent2 F cres_receita) 1 st
      else if cres_receita < 0 \<and> cres_receita \<noteq> 0
      then add_weakness
             (''Crescimento da Receita (5a) Negativo: '' @ fmt_percent2 F cres_receita)
             (- 1) st
      else st)"

text \<open>
  The last two assignments: the clamped score and the summary line. The company name
  is printed whatever it is, a string as it stands and a float through \<^verbatim>\<open>{x}\<close>.
\<close>

definition finish_analysis ::
  "py_format \<Rightarrow> financial_data \<Rightarrow> string \<Rightarrow> analysis \<times> int \<Rightarrow> analysis" where
  "finish_analysis F data ticker_input_original st =
     (case st of (a, score_analise) \<Rightarrow>
        let final_score = max (min score_analise 10) (- 10);
            nome = (case data ''nome_empresa_completo'' of
                      None \<Rightarrow> str_upper F ticker_input_original
                    | Some (Str s) \<Rightarrow> s
                    | Some (Num r) \<Rightarrow> fmt_float F r)
        in a\<lparr>score := final_score,
              summary := str_upper F ticker_input_original @ '' ('' @ nome @ ''): ''
                         @ recommendation a @ '' (Score '' @ fmt_int F final_score @ '')''\<rparr>)"

text \<open>
  Every field read from \<^verbatim>\<open>data\<close> is compared with a float on every path, so a string
  there raises \<^verbatim>\<open>TypeError\<close>; the only division follows the test
  \<^verbatim>\<open>cotacao_atual > 0\<close>.
\<close>

definition generate_investment_analysis ::
  "py_format \<Rightarrow> financial_data \<Rightarrow> (string \<rightharpoonup> real) \<Rightarrow> string \<Rightarrow> py_error + analysis" where
  "generate_investment_analysis F data fair_prices ticker_input_original =
     (let analysis0 = \<lparr>recommendation = ''NEUTRO'', risk_level = ''M'' @ [CHR 0xC9] @ ''DIO'',
                        strengths = [], weaknesses = [], summary = [], score = 0\<rparr>;
          preco_justo_medio = (case fair_prices ''average'' of Some v \<Rightarrow> v | None \<Rightarrow> 0)
      in
      bind_err (get_float data ''cotacao_atual'') (\<lambda>cotacao_atual.
      bind_err (valuation_step F preco_justo_medio cotacao_atual (analysis0, 0)) (\<lambda>st1.
      bind_err (get_float data ''roe'') (\<lambda>roe.
      bind_err (get_float data ''roic'') (\<lambda>roic.
      bind_err (get_float data ''preco_lucro'') (\<lambda>pl.
      bind_err (get_float data ''divida_bruta_patrimonio'') (\<lambda>div_br_patrim.
      bind_err (get_float data ''liquidez_corrente'') (\<lambda>liq_corr.
      bind_err (get_float data ''cres_receita_5a'') (\<lambda>cres_receita.
        Inr (finish_analysis F data ticker_input_original
               (cres_receita_step F cres_receita
                 (liq_corr_step F liq_corr
                   (div_br_patrim_step F div_br_patrim
                     (pl_step F pl
                       (roic_step F roic
                         (roe_step F roe st1))))))))))))))))"

section \<open>Notions used in the statements\<close>

text \<open>
  A field of the record read as a number, and the records whose entries at the given
  keys are floats (a missing key counts: \<^verbatim>\<open>data.get\<close> answers 0.0 for it).
\<close>

definition field :: "financial_data \<Rightarrow> string \<Rightarrow> real" where
  "field data k = (case data k of Some (Num r) \<Rightarrow> r | _ \<Rightarrow> 0)"

definition numeric_at :: "financial_data \<Rightarrow> string list \<Rightarrow> bool" where
  "numeric_at data ks =
     list_all (\<lambda>k. case data k of Some (Str s) \<Rightarrow> False | _ \<Rightarrow> True) ks"

text \<open>The fields \<^verbatim>\<open>generate_investment_analysis\<close> reads as numbers.\<close>

definition scorer_fields :: "string list" where
  "scorer_fields = [''cotacao_atual'', ''roe'', ''roic'', ''preco_lucro'',
     ''divida_bruta_patrimonio'', ''liquidez_corrente'', ''cres_receita_5a'']"

text \<open>The fields \<^verbatim>\<open>calculate_fair_price\<close> reads.\<close>

definition valuation_fields :: "string list" where
  "valuation_fields = [''lucro_por_acao'', ''valor_patrimonial_acao'', ''cotacao_atual'',
     ''roe'', ''dividend_yield'', ''liquidez_corrente'']"

text \<open>A formatter for concrete runs; what it prints plays no part in any statement.\<close>

definition plain_format :: py_format where
  "plain_format = \<lparr>fmt_percent2 = (\<lambda>x. ''%''), fmt_fixed2 = (\<lambda>x. ''#''),
     fmt_float = (\<lambda>x. ''#''), fmt_int = (\<lambda>n. ''#''), str_upper = (\<lambda>s. s)\<rparr>"

text \<open>
  What the statements ask of the float operations, all of it true of the doubles:
  rounding is monotone, 0 and 1/8 are floats, a sum of non-negative numbers is not
  negative, and a sum of one or more numbers from 1/8 upwards is positive.
\<close>

definition float_arith :: "float_ops \<Rightarrow> bool" where
  "float_arith F \<longleftrightarrow>
     (\<forall>x y. x \<le> y \<longrightarrow> rnd F x \<le> rnd F y)
     \<and> rnd F 0 = 0 \<and> rnd F (1 / 8) = 1 / 8
     \<and> (\<forall>xs. (\<forall>x \<in> set xs. 0 \<le> x) \<longrightarrow> 0 \<le> fsum F xs)
     \<and> (\<forall>xs. xs \<noteq> [] \<and> (\<forall>x \<in> set xs. 1 / 8 \<le> x) \<longrightarrow> 0 < fsum F xs)"

text \<open>
  The dividend-discount value as the specification words it, every operation a float
  operation: zero unless every precondition holds, and then the rounded, clamped
  quotient.
\<close>

definition ddm_formula :: "float_ops \<Rightarrow> real \<Rightarrow> real \<Rightarrow> real \<Rightarrow> real \<Rightarrow> real" where
  "ddm_formula F price yield roe eps =
     (let dividend = fl_mul F price yield;
          payout = fl_div F dividend eps;
          g = fl_mul F roe (fl_sub F 1 payout);
          r = fl_lit F 0.12
      in if price > 0 \<and> yield > 0 \<and> roe > 0 \<and> eps \<noteq> 0 \<and> 0 \<le> payout \<and> payout \<le> 1
            \<and> r > g \<and> g \<ge> 0 \<and> fl_sub F r g > fl_lit F (1 / 1000000)
         then fl_round2 F
                (min (max (fl_div F (fl_mul F dividend (fl_add F 1 g)) (fl_sub F r g)) 0)
                     (fl_mul F price 5))
         else 0)"

text \<open>
  The models of the weight table whose value in \<open>res\<close> is strictly positive, with
  their base weights.
\<close>

definition positive_weights :: "float_ops \<Rightarrow> (string \<rightharpoonup> real) \<Rightarrow> (string \<times> real) list" where
  "positive_weights F res = filter (\<lambda>kw. get_or res (fst kw) 0 > 0) (model_weights F)"

text \<open>
  The weighted mean over those models in float arithmetic: each value times its weight
  over the sum of the weights, added up and rounded to cents.
\<close>

definition weighted_mean :: "float_ops \<Rightarrow> (string \<rightharpoonup> real) \<Rightarrow> real" where
  "weighted_mean F res =
     (let P = positive_weights F res;
          total = fsum F (map snd P)
      in if P = [] then 0
         else fl_round2 F
                (fsum F (map (\<lambda>kw. fl_mul F (get_or res (fst kw) 0) (fl_div F (snd kw) total)) P)))"

text \<open>
  The four model values of a record.
\<close>

definition model_values :: "float_ops \<Rightarrow> financial_data \<Rightarrow> (string \<rightharpoonup> real)" where
  "model_values F data =
     [''graham'' \<mapsto> graham_model F (field data ''lucro_por_acao'')
                       (field data ''valor_patrimonial_acao''),
      ''ddm'' \<mapsto> ddm_formula F (field data ''cotacao_atual'') (field data ''dividend_yield'')
                   (field data ''roe'') (field data ''lucro_por_acao''),
      ''pe_adjusted'' \<mapsto> pe_adjusted_model F (field data ''lucro_por_acao'') (field data ''roe'')
                   (field data ''liquidez_corrente''),
      ''pvp_adjusted'' \<mapsto> pvp_adjusted_model F (field data ''valor_patrimonial_acao'')
                   (field data ''roe'')]"

text \<open>
  One price of a result, \<open>None\<close> when the run failed or the key is missing.
\<close>

definition price_of :: "py_error + (string \<rightharpoonup> real) \<Rightarrow> string \<Rightarrow> real option" where
  "price_of r k = (case r of Inr res \<Rightarrow> res k | Inl e \<Rightarrow> None)"

text \<open>
  The synthetic record of the end-to-end scenario. Its \<^verbatim>\<open>lpa\<close> and \<^verbatim>\<open>vpa\<close> are the
  keys \<^verbatim>\<open>lucro_por_acao\<close> and \<^verbatim>\<open>valor_patrimonial_acao\<close> under which the assembler
  stores the labels LPA and VPA.
\<close>

definition synthetic_record :: financial_data where
  "synthetic_record =
     [''cotacao_atual'' \<mapsto> Num 10.0, ''preco_lucro'' \<mapsto> Num 8.0,
      ''lucro_por_acao'' \<mapsto> Num 1.5, ''valor_patrimonial_acao'' \<mapsto> Num 12.0,
      ''roe'' \<mapsto> Num 0.18, ''liquidez_corrente'' \<mapsto> Num 2.0,
      ''divida_bruta_patrimonio'' \<mapsto> Num 0.3, ''dividend_yield'' \<mapsto> Num 0.0,
      ''ebit_12m'' \<mapsto> Num 0, ''lucro_liquido_12m'' \<mapsto> Num 0,
      ''receita_liquida_12m'' \<mapsto> Num 0, ''ativo_circulante'' \<mapsto> Num 0,
      ''passivo_circulante'' \<mapsto> Num 0, ''ativo_imobilizado_liquido'' \<mapsto> Num 0,
      ''patrimonio_liquido_total'' \<mapsto> Num 0]"

text \<open>
  The characters of the source text that survive the normalizer: the digits, the comma
  (which becomes the point) and the minus sign.
\<close>

definition kept_source :: "char \<Rightarrow> bool" where
  "kept_source c = (is_digit c \<or> c = CHR '','' \<or> c = CHR ''-'')"

text \<open>
  The label and value of a cell pair that the extractor records, both stripped:
  \<open>None\<close> when a span or its string is missing or empty.
\<close>

definition pair_text :: "cell \<times> cell \<Rightarrow> (string \<times> string) option" where
  "pair_text p =
     (case p of
        (Some label_string, Some data_string) \<Rightarrow>
          if label_string \<noteq> [] \<and> data_string \<noteq> []
          then Some (py_strip label_string, py_strip data_string) else None
      | _ \<Rightarrow> None)"

text \<open>
  The recorded pairs of a table in the order the two loops visit them.
\<close>

definition table_pairs :: "html_table \<Rightarrow> (string \<times> string) list" where
  "table_pairs tbl =
     concat (map (\<lambda>row. List.map_filter pair_text (zip (label_cells row) (data_cells row))) tbl)"

text \<open>
  The loop body on a recorded pair.
\<close>

definition store_text :: "bool \<Rightarrow> extract_state \<Rightarrow> string \<times> string \<Rightarrow> extract_state" where
  "store_text is_dre_table st lv =
     (let key = key_to_store is_dre_table (snd st) (fst lv);
          order' = (if is_dre_table \<and> fst lv \<in> set dre_labels \<and> fst lv \<notin> set (snd st)
                    then snd st @ [fst lv] else snd st)
      in if fst st key = None
         then ((fst st)(key \<mapsto> clean_value (Some (snd lv))), order')
         else (fst st, order'))"

text \<open>
  An entry of the record that is present and a float.
\<close>

definition is_float :: "pyval option \<Rightarrow> bool" where
  "is_float v = (case v of Some (Num r) \<Rightarrow> True | _ \<Rightarrow> False)"

text \<open>
  The derived numeric keys: income statement, balance sheet and Greenblatt.
\<close>

definition derived_float_keys :: "string list" where
  "derived_float_keys = [''ebit_12m'', ''lucro_liquido_12m'', ''receita_liquida_12m'',
     ''ativo_circulante'', ''passivo_circulante'', ''ativo_imobilizado_liquido'',
     ''patrimonio_liquido_total'', ''greenblatt_nwc_calculado'', ''greenblatt_nfa_usado'',
     ''greenblatt_ebit_usado'', ''greenblatt_ev_usado'', ''greenblatt_earnings_yield'',
     ''greenblatt_return_on_capital'']"

text \<open>
  All the numeric keys of the record: the catalog and the derived ones.
\<close>

definition float_keys :: "string list" where
  "float_keys = map snd main_indicators_mapping @ derived_float_keys"

text \<open>
  One entry of an assembled record, \<open>None\<close> when the run failed or the key is missing.
\<close>

definition entry_of :: "py_error + financial_data \<Rightarrow> string \<Rightarrow> pyval option" where
  "entry_of r k = (case r of Inr data \<Rightarrow> data k | Inl e \<Rightarrow> None)"

text \<open>
  A page on which nothing is found.
\<close>

definition empty_soup :: html_soup where
  "empty_soup = \<lparr>txt_spans = [], titled_table = (\<lambda>t. Inr None), empresa_span = None\<rparr>"

text \<open>
  An income statement with a heading row and two rows of two pairs each, the
  twelve-month column first.
\<close>

definition dre_example_table :: html_table where
  "dre_example_table =
     [\<lparr>label_cells = [], data_cells = [], nivel2_heading = True\<rparr>,
      \<lparr>label_cells = [Some (''Receita L'' @ [CHR 0xED] @ ''quida''),
                      Some (''Receita L'' @ [CHR 0xED] @ ''quida'')],
        data_cells = [Some ''1.000'', Some ''250''], nivel2_heading = False\<rparr>,
      \<lparr>label_cells = [Some ''EBIT'', Some '' EBIT ''],
        data_cells = [Some ''300'', Some ''80''], nivel2_heading = False\<rparr>]"

text \<open>
  A page holding that table under the second of the two candidate titles.
\<close>

definition dre_example_soup :: html_soup where
  "dre_example_soup =
     \<lparr>txt_spans = [],
      titled_table = (\<lambda>t. if t = ''Demonstrativo de Resultados''
                           then Inr (Some dre_example_table) else Inr None),
      empresa_span = None\<rparr>"

text \<open>
  An income statement whose first cell is labelled with the three-month key itself,
  before the two cells of the label.
\<close>

definition dre_clash_table :: html_table where
  "dre_clash_table =
     [\<lparr>label_cells = [Some (''EBIT ('' @ [CHR 0xDA] @ ''ltimos 3 meses)'')],
        data_cells = [Some ''9''], nivel2_heading = False\<rparr>,
      \<lparr>label_cells = [Some ''EBIT'', Some ''EBIT''],
        data_cells = [Some ''1'', Some ''2''], nivel2_heading = False\<rparr>]"

text \<open>
  An income statement whose first value cell has no string.
\<close>

definition dre_gap_table :: html_table where
  "dre_gap_table =
     [\<lparr>label_cells = [Some ''EBIT'', Some ''EBIT''],
        data_cells = [None, Some ''5''], nivel2_heading = False\<rparr>]"

text \<open>
  A page holding a table under the second of the two candidate titles.
\<close>

definition dre_soup :: "html_table \<Rightarrow> html_soup" where
  "dre_soup tbl =
     \<lparr>txt_spans = [],
      titled_table = (\<lambda>t. if t = ''Demonstrativo de Resultados'' then Inr (Some tbl)
                           else Inr None),
      empresa_span = None\<rparr>"

section \<open>Basic facts\<close>

lemma bind_err_Inr [simp]: "bind_err (Inr x) f = f x"
  by (simp add: bind_err_def)

lemma bind_err_Inl [simp]: "bind_err (Inl e) f = Inl e"
  by (simp add: bind_err_def)

lemma bind_err_eq_Inr: "bind_err m f = Inr y \<longleftrightarrow> (\<exists>x. m = Inr x \<and> f x = Inr y)"
  by (cases m) simp_all

lemma get_float_numeric:
  "numeric_at data ks \<Longrightarrow> k \<in> set ks \<Longrightarrow> get_float data k = Inr (field data k)"
  by (auto simp: numeric_at_def list_all_iff get_float_def field_def
      split: option.splits pyval.splits)

lemma py_truediv_Inr: "b \<noteq> 0 \<Longrightarrow> py_truediv a b = Inr (a / b)"
  by (simp add: py_truediv_def)

section \<open>The numeric normalizer\<close>

lemma py_replace_delete_char: "py_replace [a] [] s = filter (\<lambda>c. c \<noteq> a) s"
  by (induction s) auto

lemma py_replace_map_char: "py_replace [a] [b] s = map (\<lambda>c. if c = a then b else c) s"
  by (induction s) auto

lemma filter_dropWhile_rejected:
  "(\<And>c. Q c \<Longrightarrow> \<not> P c) \<Longrightarrow> filter P (dropWhile Q s) = filter P s"
  by (induction s) auto

lemma filter_py_strip:
  assumes "\<And>c. py_isspace c \<Longrightarrow> \<not> P c"
  shows "filter P (py_strip s) = filter P s"
proof -
  have "filter P (py_strip s) = rev (filter P (dropWhile py_isspace (rev (dropWhile py_isspace s))))"
    by (simp add: py_strip_def rev_filter)
  also have "\<dots> = rev (filter P (rev (dropWhile py_isspace s)))"
    using assms by (simp add: filter_dropWhile_rejected)
  also have "\<dots> = filter P (dropWhile py_isspace s)"
    by (simp add: rev_filter)
  also have "\<dots> = filter P s"
    using assms by (simp add: filter_dropWhile_rejected)
  finally show ?thesis .
qed

lemma filter_py_replace_pair:
  "\<not> P a \<Longrightarrow> \<not> P b \<Longrightarrow> filter P (py_replace [a, b] [] s) = filter P s"
proof (induction "[a, b]" "[] :: string" s rule: py_replace.induct)
  case 1
  then show ?case by simp
next
  case (2 c cs)
  show ?case
  proof (cases "take 2 (c # cs) = [a, b]")
    case True
    then obtain r where r: "c # cs = a # b # r"
      by (cases cs) auto
    with 2 True show ?thesis by simp
  next
    case False
    with 2 show ?thesis by auto
  qed
qed

lemma space_not_kept: "py_isspace c \<Longrightarrow> \<not> kept_source c"
  by (auto simp: py_isspace_def kept_source_def is_digit_def)

lemma space_not_percent: "py_isspace c \<Longrightarrow> \<not> c = CHR ''%''"
  by (auto simp: py_isspace_def)

lemma mem_filter_eq: "c \<in> set xs \<longleftrightarrow> filter (\<lambda>x. x = c) xs \<noteq> []"
  by (auto simp: filter_empty_conv)

lemma final_text:
  "filter keep_char (py_replace '','' ''.'' (py_replace ''.'' [] x))
     = map (\<lambda>c. if c = CHR '','' then CHR ''.'' else c) (filter kept_source x)"
  by (induction x) (auto simp: py_replace_delete_char py_replace_map_char keep_char_def kept_source_def is_digit_def)

lemma kept_not_marker: "\<not> kept_source CHR ''R''" "\<not> kept_source CHR ''$''" "\<not> kept_source CHR ''%''"
  by (simp_all add: kept_source_def is_digit_def)

lemma kept_after_currency:
  "filter kept_source (if py_contains ''R$'' t then py_strip (py_replace ''R$'' [] t) else t)
     = filter kept_source t"
  by (simp add: filter_py_strip space_not_kept filter_py_replace_pair kept_not_marker)

lemma percent_after_currency:
  "CHR ''%'' \<in> set (if py_contains ''R$'' t then py_strip (py_replace ''R$'' [] t) else t)
     \<longleftrightarrow> CHR ''%'' \<in> set t"
  unfolding mem_filter_eq [of "CHR ''%''"]
  by (simp add: filter_py_strip space_not_percent filter_py_replace_pair)

lemma kept_after_percent:
  "filter kept_source (if p then py_strip (py_replace ''%'' [] t) else t) = filter kept_source t"
proof -
  have "(\<lambda>x. x \<noteq> CHR ''%'' \<and> kept_source x) = kept_source"
    using kept_not_marker(3) by auto
  then show ?thesis
    by (simp add: filter_py_strip space_not_kept py_replace_delete_char)
qed

lemma percent_py_strip: "CHR ''%'' \<in> set (py_strip s) \<longleftrightarrow> CHR ''%'' \<in> set s"
  unfolding mem_filter_eq [of "CHR ''%''"]
  by (simp add: filter_py_strip space_not_percent)

lemma clean_value_Some:
  "clean_value (Some s) =
     (if py_strip s = [] \<or> py_strip s = ''-'' then 0
      else let body = filter keep_char
                        (map (\<lambda>c. if c = CHR '','' then CHR ''.'' else c)
                           (filter (\<lambda>c. c \<noteq> CHR ''.'') s))
           in if body = [] \<or> body = ''-'' then 0
              else (case py_float body of
                      None \<Rightarrow> 0
                    | Some v \<Rightarrow> if CHR ''%'' \<in> set s then v / 100 else v))"
proof -
  have body: "filter keep_char (map (\<lambda>c. if c = CHR '','' then CHR ''.'' else c)
                 (filter (\<lambda>c. c \<noteq> CHR ''.'') s))
      = map (\<lambda>c. if c = CHR '','' then CHR ''.'' else c) (filter kept_source s)"
    using final_text [of s] by (simp add: py_replace_delete_char py_replace_map_char)
  have kept: "filter kept_source (py_strip s) = filter kept_source s"
    by (simp add: filter_py_strip space_not_kept)
  show ?thesis
    unfolding body clean_value_def Let_def option.case final_text kept_after_percent
      kept_after_currency percent_after_currency percent_py_strip kept
    by (simp cong: option.case_cong)
qed

lemmas clean_value_eval = clean_value_def py_strip_def py_isspace_def keep_char_def
  is_digit_def py_float_def py_float_unsigned_def digits_val_def digit_val_def

text \<open>
  C7. \<^verbatim>\<open>clean_value\<close> is a total function to floats: the only exception of its body,
  the \<^verbatim>\<open>ValueError\<close> of \<^verbatim>\<open>float\<close>, is caught and gives 0.0. \<open>None\<close>, the empty
  string and \<^verbatim>\<open>-\<close> give 0.0. For any other text the result is the number read from
  the text with every point removed, every comma turned into a point and every
  character other than a digit, a point or a minus sign dropped (so the \<^verbatim>\<open>R$\<close> and
  \<^verbatim>\<open>%\<close> markers go), divided by 100 when the text holds a percent sign, and 0.0 when
  nothing or only a minus sign is left or the parse fails. The four examples follow.
\<close>

theorem clean_value_correct:
  "clean_value None = 0
   \<and> clean_value (Some s) =
       (if py_strip s = [] \<or> py_strip s = ''-'' then 0
        else let body = filter keep_char
                          (map (\<lambda>c. if c = CHR '','' then CHR ''.'' else c)
                             (filter (\<lambda>c. c \<noteq> CHR ''.'') s))
             in if body = [] \<or> body = ''-'' then 0
                else (case py_float body of
                        None \<Rightarrow> 0
                      | Some v \<Rightarrow> if CHR ''%'' \<in> set s then v / 100 else v))
   \<and> clean_value (Some []) = 0
   \<and> clean_value (Some ''-'') = 0
   \<and> clean_value (Some ''1.234,56'') = 1234.56
   \<and> clean_value (Some ''12,5%'') = 0.125
   \<and> clean_value (Some ''R$ 10,00'') = 10.0
   \<and> clean_value (Some ''abc'') = 0"
proof (intro conjI)
  show "clean_value None = 0" by (simp add: clean_value_def)
  show "clean_value (Some s) =
       (if py_strip s = [] \<or> py_strip s = ''-'' then 0
        else let body = filter keep_char
                          (map (\<lambda>c. if c = CHR '','' then CHR ''.'' else c)
                             (filter (\<lambda>c. c \<noteq> CHR ''.'') s))
             in if body = [] \<or> body = ''-'' then 0
                else (case py_float body of
                        None \<Rightarrow> 0
                      | Some v \<Rightarrow> if CHR ''%'' \<in> set s then v / 100 else v))"
    by (rule clean_value_Some)
  show "clean_value (Some []) = 0" by (simp add: clean_value_eval)
  show "clean_value (Some ''-'') = 0" by (simp add: clean_value_eval)
  show "clean_value (Some ''1.234,56'') = 1234.56" by (simp add: clean_value_eval)
  show "clean_value (Some ''12,5%'') = 0.125" by (simp add: clean_value_eval)
  show "clean_value (Some ''R$ 10,00'') = 10.0" by (simp add: clean_value_eval)
  show "clean_value (Some ''abc'') = 0" by (simp add: clean_value_eval)
qed

section \<open>The table extractor\<close>

subsection \<open>The loops as one pass over the recorded pairs\<close>

lemma store_pair_text:
  "store_pair d st p = (case pair_text p of None \<Rightarrow> st | Some lv \<Rightarrow> store_text d st lv)"
  by (cases st; cases p)
     (auto simp: store_pair_def pair_text_def store_text_def Let_def split: option.splits)

lemma foldl_store_pair:
  "foldl (store_pair d) st ps = foldl (store_text d) st (List.map_filter pair_text ps)"
  by (induction ps arbitrary: st) (simp_all add: store_pair_text map_filter_simps split: option.splits)

lemma process_row_pairs:
  "process_row d st (i, row)
     = foldl (store_text d) st (List.map_filter pair_text (zip (label_cells row) (data_cells row)))"
  by (auto simp: process_row_def foldl_store_pair map_filter_simps)

lemma foldl_process_row:
  "length is = length tbl \<Longrightarrow>
   foldl (process_row d) st (zip is tbl) = foldl (store_text d) st (table_pairs tbl)"
proof (induction tbl arbitrary: "is" st)
  case Nil
  then show ?case by (simp add: table_pairs_def)
next
  case (Cons row tbl)
  then obtain i is' where i: "is = i # is'" "length is' = length tbl"
    by (cases "is") auto
  show ?case
    using Cons.IH [OF i(2)] by (simp add: i process_row_pairs table_pairs_def)
qed

lemma extract_table_data_pairs:
  "extract_table_data soup titles =
     (case find_table soup titles of
        None \<Rightarrow> Map.empty
      | Some (tbl, title) \<Rightarrow>
          fst (foldl (store_text (title \<in> set dre_titles)) (Map.empty, []) (table_pairs tbl)))"
  by (simp add: extract_table_data_def foldl_process_row Let_def split: option.splits)

subsection \<open>The first write wins\<close>

lemma store_text_keeps: "fst st k = Some x \<Longrightarrow> fst (store_text d st lv) k = Some x"
  by (auto simp: store_text_def Let_def)

lemma foldl_store_text_keeps:
  "fst st k = Some x \<Longrightarrow> fst (foldl (store_text d) st ps) k = Some x"
  by (induction ps arbitrary: st) (simp_all add: store_text_keeps)

lemma store_pair_keeps: "fst st k = Some x \<Longrightarrow> fst (store_pair d st p) k = Some x"
  by (simp add: store_pair_text store_text_keeps split: option.splits)

lemma process_row_keeps: "fst st k = Some x \<Longrightarrow> fst (process_row d st ir) k = Some x"
  by (cases ir) (simp add: process_row_pairs foldl_store_text_keeps)

lemma foldl_process_row_keeps:
  "fst st k = Some x \<Longrightarrow> fst (foldl (process_row d) st irs) k = Some x"
  by (induction irs arbitrary: st) (simp_all add: process_row_keeps)

subsection \<open>The keys of a repeated label\<close>

lemma suffixed_keys_differ:
  "l \<in> set dre_labels \<Longrightarrow> L \<in> set dre_labels \<Longrightarrow> l \<noteq> L \<Longrightarrow>
   s \<in> {suffix_12m, suffix_3m} \<Longrightarrow> s' \<in> {suffix_12m, suffix_3m} \<Longrightarrow> l @ s \<noteq> L @ s'"
  by (auto simp: dre_labels_def suffix_12m_def suffix_3m_def)

lemma suffixes_differ: "suffix_12m \<noteq> suffix_3m"
  by (simp add: suffix_12m_def suffix_3m_def)

lemma key_to_store_other:
  assumes "L \<in> set dre_labels" "s \<in> {suffix_12m, suffix_3m}" "l \<noteq> L" "l \<noteq> L @ s"
  shows "key_to_store d ord l \<noteq> L @ s"
  using assms suffixed_keys_differ [of l L _ s]
  by (auto simp: key_to_store_def)

lemma store_text_other_key:
  assumes "L \<in> set dre_labels" "s \<in> {suffix_12m, suffix_3m}" "fst lv \<noteq> L" "fst lv \<noteq> L @ s"
  shows "fst (store_text d st lv) (L @ s) = fst st (L @ s)"
  using key_to_store_other [OF assms, of d "snd st"]
  by (auto simp: store_text_def Let_def)

lemma segment_key:
  assumes "L \<in> set dre_labels" "s \<in> {suffix_12m, suffix_3m}"
    "L \<notin> fst ` set ps" "L @ s \<notin> fst ` set ps"
  shows "fst (foldl (store_text d) st ps) (L @ s) = fst st (L @ s)"
  using assms(3,4)
proof (induction ps arbitrary: st)
  case Nil
  then show ?case by simp
next
  case (Cons lv ps)
  then have "fst lv \<noteq> L" "fst lv \<noteq> L @ s" by auto
  from store_text_other_key [OF assms(1,2) this] Cons show ?case by simp
qed

lemma store_text_order:
  "L \<noteq> fst lv \<Longrightarrow> L \<in> set (snd (store_text d st lv)) \<longleftrightarrow> L \<in> set (snd st)"
  by (auto simp: store_text_def Let_def)

lemma segment_order:
  "L \<notin> fst ` set ps \<Longrightarrow>
   L \<in> set (snd (foldl (store_text d) st ps)) \<longleftrightarrow> L \<in> set (snd st)"
  by (induction ps arbitrary: st) (simp_all add: store_text_order)

lemma store_text_first:
  assumes "L \<in> set dre_labels" "L \<notin> set (snd st)" "fst st (L @ suffix_12m) = None"
  shows "fst (store_text True st (L, v)) (L @ suffix_12m) = Some (clean_value (Some v))"
    and "fst (store_text True st (L, v)) (L @ suffix_3m) = fst st (L @ suffix_3m)"
    and "L \<in> set (snd (store_text True st (L, v)))"
  using assms suffixes_differ by (auto simp: store_text_def key_to_store_def Let_def)

lemma store_text_second:
  assumes "L \<in> set dre_labels" "L \<in> set (snd st)" "fst st (L @ suffix_3m) = None"
  shows "fst (store_text True st (L, v)) (L @ suffix_3m) = Some (clean_value (Some v))"
  using assms by (auto simp: store_text_def key_to_store_def Let_def)

lemma two_occurrences:
  assumes L: "L \<in> set dre_labels"
    and A: "L \<notin> fst ` set A" "L @ suffix_12m \<notin> fst ` set A" "L @ suffix_3m \<notin> fst ` set A"
    and B: "L \<notin> fst ` set B" "L @ suffix_3m \<notin> fst ` set B"
  shows "fst (foldl (store_text True) (Map.empty, []) (A @ (L, v1) # B @ (L, v2) # C))
           (L @ suffix_12m) = Some (clean_value (Some v1))"
    and "fst (foldl (store_text True) (Map.empty, []) (A @ (L, v1) # B @ (L, v2) # C))
           (L @ suffix_3m) = Some (clean_value (Some v2))"
proof -
  let ?f = "store_text True"
  define stA where "stA = foldl ?f (Map.empty, []) A"
  define st1 where "st1 = ?f stA (L, v1)"
  define stB where "stB = foldl ?f st1 B"
  define st2 where "st2 = ?f stB (L, v2)"
  have run: "foldl ?f (Map.empty, []) (A @ (L, v1) # B @ (L, v2) # C) = foldl ?f st2 C"
    by (simp add: stA_def st1_def stB_def st2_def)
  have a12: "fst stA (L @ suffix_12m) = None"
    unfolding stA_def using segment_key [OF L _ A(1) A(2)] by simp
  have a3: "fst stA (L @ suffix_3m) = None"
    unfolding stA_def using segment_key [OF L _ A(1) A(3)] by simp
  have ao: "L \<notin> set (snd stA)"
    unfolding stA_def using segment_order [OF A(1)] by simp
  note f = store_text_first [OF L ao a12, of v1, folded st1_def]
  have b12: "fst stB (L @ suffix_12m) = Some (clean_value (Some v1))"
    unfolding stB_def using f(1) by (rule foldl_store_text_keeps)
  have b3: "fst stB (L @ suffix_3m) = None"
    unfolding stB_def using segment_key [OF L _ B(1) B(2), where st = st1 and d = True] f(2) a3
    by simp
  have bo: "L \<in> set (snd stB)"
    unfolding stB_def using segment_order [OF B(1)] f(3) by simp
  have c12: "fst st2 (L @ suffix_12m) = Some (clean_value (Some v1))"
    unfolding st2_def using b12 by (rule store_text_keeps)
  have c3: "fst st2 (L @ suffix_3m) = Some (clean_value (Some v2))"
    unfolding st2_def using L bo b3 by (rule store_text_second)
  show "fst (foldl ?f (Map.empty, []) (A @ (L, v1) # B @ (L, v2) # C))
           (L @ suffix_12m) = Some (clean_value (Some v1))"
    unfolding run using c12 by (rule foldl_store_text_keeps)
  show "fst (foldl ?f (Map.empty, []) (A @ (L, v1) # B @ (L, v2) # C))
           (L @ suffix_3m) = Some (clean_value (Some v2))"
    unfolding run using c3 by (rule foldl_store_text_keeps)
qed

lemma find_table_none:
  "list_all (\<lambda>t. case titled_table soup t of Inr (Some tbl) \<Rightarrow> False | _ \<Rightarrow> True) titles
   \<Longrightarrow> find_table soup titles = None"
  by (induction titles) (auto split: sum.splits option.splits)

text \<open>
  C8, as the code has it. When no candidate title has a table the extractor returns
  the empty mapping (an exception of the search is caught, nothing else raises). A key
  present in the result keeps its value to the end of the run. In an income-statement
  table, among the cell pairs that are recorded (label and value both with a non-empty
  string), take a headline label and its first two occurrences, with no earlier
  recorded cell whose label is literally the suffixed key: the value of the first
  occurrence is stored under the twelve-month key and the value of the second under the
  three-month key.
\<close>

theorem table_extractor_tags:
  "(list_all (\<lambda>t. case titled_table soup t of Inr (Some tbl) \<Rightarrow> False | _ \<Rightarrow> True) titles
      \<longrightarrow> extract_table_data soup titles = Map.empty)
   \<and> (fst st k = Some x \<longrightarrow> fst (foldl (process_row d) st irs) k = Some x)
   \<and> (find_table soup titles = Some (tbl, title) \<and> title \<in> set dre_titles
        \<and> L \<in> set dre_labels
        \<and> table_pairs tbl = A @ (L, v1) # B @ (L, v2) # C
        \<and> L \<notin> fst ` set (A @ B)
        \<and> L @ suffix_12m \<notin> fst ` set A
        \<and> L @ suffix_3m \<notin> fst ` set (A @ B)
      \<longrightarrow> extract_table_data soup titles (L @ suffix_12m) = Some (clean_value (Some v1))
        \<and> extract_table_data soup titles (L @ suffix_3m) = Some (clean_value (Some v2)))"
proof (intro conjI impI)
  assume "list_all (\<lambda>t. case titled_table soup t of Inr (Some tbl) \<Rightarrow> False | _ \<Rightarrow> True) titles"
  then show "extract_table_data soup titles = Map.empty"
    by (simp add: extract_table_data_def find_table_none)
next
  assume "fst st k = Some x"
  then show "fst (foldl (process_row d) st irs) k = Some x"
    by (rule foldl_process_row_keeps)
next
  assume h: "find_table soup titles = Some (tbl, title) \<and> title \<in> set dre_titles
        \<and> L \<in> set dre_labels
        \<and> table_pairs tbl = A @ (L, v1) # B @ (L, v2) # C
        \<and> L \<notin> fst ` set (A @ B)
        \<and> L @ suffix_12m \<notin> fst ` set A
        \<and> L @ suffix_3m \<notin> fst ` set (A @ B)"
  then have e: "extract_table_data soup titles
      = fst (foldl (store_text True) (Map.empty, []) (A @ (L, v1) # B @ (L, v2) # C))"
    by (simp add: extract_table_data_pairs)
  from h have L: "L \<in> set dre_labels"
    and A: "L \<notin> fst ` set A" "L @ suffix_12m \<notin> fst ` set A" "L @ suffix_3m \<notin> fst ` set A"
    and B: "L \<notin> fst ` set B" "L @ suffix_3m \<notin> fst ` set B"
    by auto
  show "extract_table_data soup titles (L @ suffix_12m) = Some (clean_value (Some v1))"
    unfolding e by (rule two_occurrences(1) [OF L A B])
  show "extract_table_data soup titles (L @ suffix_3m) = Some (clean_value (Some v2))"
    unfolding e by (rule two_occurrences(2) [OF L A B])
qed

theorem table_extractor_tags_witness:
  "list_all (\<lambda>t. case titled_table empty_soup t of Inr (Some tbl) \<Rightarrow> False | _ \<Rightarrow> True)
      dre_titles
   \<and> extract_table_data empty_soup dre_titles = Map.empty
   \<and> fst ([''EBIT'' \<mapsto> 1 :: real], [] :: string list) ''EBIT'' = Some 1
   \<and> fst (foldl (process_row False) ([''EBIT'' \<mapsto> 1], [])
             [(0, \<lparr>label_cells = [Some ''EBIT''], data_cells = [Some ''2''],
                    nivel2_heading = False\<rparr>)]) ''EBIT'' = Some 1
   \<and> find_table dre_example_soup dre_titles
        = Some (dre_example_table, ''Demonstrativo de Resultados'')
   \<and> ''Demonstrativo de Resultados'' \<in> set dre_titles
   \<and> ''EBIT'' \<in> set dre_labels
   \<and> table_pairs dre_example_table
        = [(''Receita L'' @ [CHR 0xED] @ ''quida'', ''1.000''),
           (''Receita L'' @ [CHR 0xED] @ ''quida'', ''250'')]
          @ (''EBIT'', ''300'') # [] @ (''EBIT'', ''80'') # []
   \<and> extract_table_data dre_example_soup dre_titles (''EBIT'' @ suffix_12m) = Some 300
   \<and> extract_table_data dre_example_soup dre_titles (''EBIT'' @ suffix_3m) = Some 80"
proof -
  let ?A = "[(''Receita L'' @ [CHR 0xED] @ ''quida'', ''1.000''),
             (''Receita L'' @ [CHR 0xED] @ ''quida'', ''250'')]"
  let ?row = "\<lparr>label_cells = [Some ''EBIT''], data_cells = [Some ''2''],
                nivel2_heading = False\<rparr>"
  have h1: "list_all (\<lambda>t. case titled_table empty_soup t of Inr (Some tbl) \<Rightarrow> False | _ \<Rightarrow> True)
      dre_titles"
    by (simp add: empty_soup_def dre_titles_def)
  have h2: "fst ([''EBIT'' \<mapsto> 1 :: real], [] :: string list) ''EBIT'' = Some 1"
    by simp
  have f: "find_table dre_example_soup dre_titles
        = Some (dre_example_table, ''Demonstrativo de Resultados'')"
    by (simp add: dre_example_soup_def dre_titles_def)
  have t: "''Demonstrativo de Resultados'' \<in> set dre_titles"
    by (simp add: dre_titles_def)
  have l: "''EBIT'' \<in> set dre_labels"
    by (simp add: dre_labels_def)
  have p: "table_pairs dre_example_table = ?A @ (''EBIT'', ''300'') # [] @ (''EBIT'', ''80'') # []"
    by (simp add: table_pairs_def dre_example_table_def pair_text_def map_filter_simps
        py_strip_def py_isspace_def)
  have n: "''EBIT'' \<notin> fst ` set (?A @ [])" "''EBIT'' @ suffix_12m \<notin> fst ` set ?A"
    "''EBIT'' @ suffix_3m \<notin> fst ` set (?A @ [])"
    by (simp_all add: suffix_12m_def suffix_3m_def)
  have c: "clean_value (Some ''300'') = 300" "clean_value (Some ''80'') = 80"
    by (simp_all add: clean_value_eval)
  have r1: "extract_table_data empty_soup dre_titles = Map.empty"
    by (rule table_extractor_tags [where soup = empty_soup and titles = dre_titles,
          THEN conjunct1, THEN mp, OF h1])
  have r2: "fst (foldl (process_row False) ([''EBIT'' \<mapsto> 1], []) [(0, ?row)]) ''EBIT'' = Some 1"
    by (rule table_extractor_tags [where st = "([''EBIT'' \<mapsto> 1], [])" and k = "''EBIT''",
          THEN conjunct2, THEN conjunct1, THEN mp, OF h2])
  have hyp: "find_table dre_example_soup dre_titles
          = Some (dre_example_table, ''Demonstrativo de Resultados'')
        \<and> ''Demonstrativo de Resultados'' \<in> set dre_titles
        \<and> ''EBIT'' \<in> set dre_labels
        \<and> table_pairs dre_example_table = ?A @ (''EBIT'', ''300'') # [] @ (''EBIT'', ''80'') # []
        \<and> ''EBIT'' \<notin> fst ` set (?A @ [])
        \<and> ''EBIT'' @ suffix_12m \<notin> fst ` set ?A
        \<and> ''EBIT'' @ suffix_3m \<notin> fst ` set (?A @ [])"
    by (intro conjI f t l p n)
  note r3 = table_extractor_tags [where soup = dre_example_soup and titles = dre_titles,
          THEN conjunct2, THEN conjunct2, THEN mp, OF hyp]
  have r3a: "extract_table_data dre_example_soup dre_titles (''EBIT'' @ suffix_12m) = Some 300"
    using r3 [THEN conjunct1] by (simp only: c)
  have r3b: "extract_table_data dre_example_soup dre_titles (''EBIT'' @ suffix_3m) = Some 80"
    using r3 [THEN conjunct2] by (simp only: c)
  show ?thesis by (intro conjI h1 r1 h2 r2 f t l p r3a r3b)
qed

subsection \<open>Tables on which the second occurrence is not the three-month value\<close>

lemma find_table_dre_soup:
  "find_table (dre_soup tbl) dre_titles = Some (tbl, ''Demonstrativo de Resultados'')"
  by (simp add: dre_soup_def dre_titles_def)

lemma clash_pairs:
  "table_pairs dre_clash_table
     = [(''EBIT'' @ suffix_3m, ''9''), (''EBIT'', ''1''), (''EBIT'', ''2'')]"
  by (simp add: table_pairs_def dre_clash_table_def pair_text_def map_filter_simps
      py_strip_def py_isspace_def suffix_3m_def)

lemma gap_pairs: "table_pairs dre_gap_table = [(''EBIT'', ''5'')]"
  by (simp add: table_pairs_def dre_gap_table_def pair_text_def map_filter_simps
      py_strip_def py_isspace_def)

text \<open>
  C8 as stated fails. With a first cell labelled by the three-month key, the second
  occurrence of the label (value 2) is not stored: the three-month key keeps 9. With a
  first value cell that has no string, the second occurrence is stored under the
  twelve-month key and the three-month key is absent.
\<close>

theorem repeated_label_counterexample:
  "table_pairs dre_clash_table
     = [(''EBIT'' @ suffix_3m, ''9''), (''EBIT'', ''1''), (''EBIT'', ''2'')]
   \<and> extract_table_data (dre_soup dre_clash_table) dre_titles (''EBIT'' @ suffix_12m) = Some 1
   \<and> extract_table_data (dre_soup dre_clash_table) dre_titles (''EBIT'' @ suffix_3m) = Some 9
   \<and> extract_table_data (dre_soup dre_clash_table) dre_titles (''EBIT'' @ suffix_3m)
        \<noteq> Some (clean_value (Some ''2''))
   \<and> extract_table_data (dre_soup dre_gap_table) dre_titles (''EBIT'' @ suffix_12m) = Some 5
   \<and> extract_table_data (dre_soup dre_gap_table) dre_titles (''EBIT'' @ suffix_3m) = None"
proof -
  have c: "clean_value (Some ''9'') = 9" "clean_value (Some ''1'') = 1"
    "clean_value (Some ''2'') = 2" "clean_value (Some ''5'') = 5"
    by (simp_all add: clean_value_eval)
  have t: "''Demonstrativo de Resultados'' \<in> set dre_titles" by (simp add: dre_titles_def)
  have a: "extract_table_data (dre_soup dre_clash_table) dre_titles
      = [''EBIT'' @ suffix_3m \<mapsto> 9, ''EBIT'' @ suffix_12m \<mapsto> 1]"
    by (simp add: extract_table_data_pairs find_table_dre_soup t clash_pairs store_text_def
        key_to_store_def dre_labels_def suffix_12m_def suffix_3m_def c Let_def)
  have b: "extract_table_data (dre_soup dre_gap_table) dre_titles = [''EBIT'' @ suffix_12m \<mapsto> 5]"
    by (simp add: extract_table_data_pairs find_table_dre_soup t gap_pairs store_text_def
        key_to_store_def dre_labels_def suffix_12m_def suffix_3m_def c Let_def)
  show ?thesis
    by (simp add: clash_pairs a b c) (simp add: suffix_12m_def suffix_3m_def)
qed

section \<open>The indicator assembler\<close>

lemma main_indicators_lookup:
  "list_all (\<lambda>lk. main_indicators soup (snd lk)
      = Some (Num (clean_value (text_to_convert (txt_spans soup) (fst lk)))))
     main_indicators_mapping"
  by (simp add: main_indicators_def main_indicators_mapping_def)

lemma main_indicators_other:
  "k \<notin> set (map snd main_indicators_mapping) \<Longrightarrow> main_indicators soup k = None"
  by (simp add: main_indicators_def main_indicators_mapping_def)

lemma ratio_or_zero_total: "\<exists>q. ratio_or_zero a b = Inr q"
  by (simp add: ratio_or_zero_def py_truediv_def)

lemma ratio_or_zero_eq: "ratio_or_zero a b = Inr (if b = 0 then 0 else a / b)"
  by (simp add: ratio_or_zero_def py_truediv_def)

lemma is_float_upd_Num [simp]:
  "is_float ((m(k \<mapsto> Num x)) k') \<longleftrightarrow> k' = k \<or> is_float (m k')"
  by (simp add: is_float_def)

lemma is_float_upd_Str [simp]:
  "is_float ((m(k \<mapsto> Str x)) k') \<longleftrightarrow> k' \<noteq> k \<and> is_float (m k')"
  by (simp add: is_float_def)

lemma is_float_get_float: "is_float (data k) \<Longrightarrow> \<exists>r. get_float data k = Inr r \<and> data k = Some (Num r)"
  by (auto simp: is_float_def get_float_def split: option.splits pyval.splits)

lemma is_float_get_item: "is_float (data k) \<Longrightarrow> \<exists>r. get_item data k = Inr r \<and> data k = Some (Num r)"
  by (auto simp: is_float_def get_item_def split: option.splits pyval.splits)

lemma main_indicators_facts:
  "list_all (\<lambda>lk. is_float (main_indicators soup (snd lk))
              \<and> (text_to_convert (txt_spans soup) (fst lk) = None
                   \<longrightarrow> main_indicators soup (snd lk) = Some (Num 0)))
     main_indicators_mapping"
  using main_indicators_lookup [of soup]
  by (simp add: list_all_iff is_float_def clean_value_def)

lemma greenblatt_fields_total:
  assumes "is_float (data ''enterprise_value'')" "is_float (data ''ebit_12m'')"
    "is_float (data ''ativo_circulante'')" "is_float (data ''passivo_circulante'')"
    "is_float (data ''ativo_imobilizado_liquido'')"
  shows "\<exists>a b c d e f.
     greenblatt_fields data =
       Inr (data(''greenblatt_nwc_calculado'' \<mapsto> Num a,
                 ''greenblatt_nfa_usado'' \<mapsto> Num b,
                 ''greenblatt_ebit_usado'' \<mapsto> Num c,
                 ''greenblatt_ev_usado'' \<mapsto> Num d,
                 ''greenblatt_earnings_yield'' \<mapsto> Num e,
                 ''greenblatt_return_on_capital'' \<mapsto> Num f))"
proof -
  from assms(1) obtain ev where ev: "get_float data ''enterprise_value'' = Inr ev"
    by (auto dest: is_float_get_float)
  from assms(2) obtain eb where eb: "get_float data ''ebit_12m'' = Inr eb"
    by (auto dest: is_float_get_float)
  from assms(3) obtain ac where ac: "get_item data ''ativo_circulante'' = Inr ac"
    by (auto dest: is_float_get_item)
  from assms(4) obtain pc where pc: "get_item data ''passivo_circulante'' = Inr pc"
    by (auto dest: is_float_get_item)
  from assms(5) obtain nfa where nfa: "get_item data ''ativo_imobilizado_liquido'' = Inr nfa"
    by (auto dest: is_float_get_item)
  show ?thesis
    unfolding greenblatt_fields_def ev eb ac pc nfa ratio_or_zero_eq Let_def bind_err_Inr
    by (intro exI) (rule refl)
qed

lemma table_fields_patrimonio:
  "data ''patrimonio_liquido_total'' = None \<Longrightarrow>
   is_float (table_fields soup data ''patrimonio_liquido_total'')"
  by (simp add: table_fields_def Let_def is_float_def split: option.splits)

lemma table_fields_float:
  "is_float (table_fields soup data ''ebit_12m'')"
  "is_float (table_fields soup data ''lucro_liquido_12m'')"
  "is_float (table_fields soup data ''receita_liquida_12m'')"
  "is_float (table_fields soup data ''ativo_circulante'')"
  "is_float (table_fields soup data ''passivo_circulante'')"
  "is_float (table_fields soup data ''ativo_imobilizado_liquido'')"
  by (simp_all add: table_fields_def Let_def is_float_def)

lemma table_fields_other:
  "k \<notin> set [''ebit_12m'', ''lucro_liquido_12m'', ''receita_liquida_12m'',
       ''ativo_circulante'', ''passivo_circulante'', ''ativo_imobilizado_liquido'',
       ''patrimonio_liquido_total''] \<Longrightarrow> table_fields soup data k = data k"
  by (simp add: table_fields_def Let_def)

lemma main_indicators_patrimonio: "main_indicators soup ''patrimonio_liquido_total'' = None"
  by (rule main_indicators_other) (simp add: main_indicators_mapping_def)

lemma base_record_float:
  "list_all (\<lambda>k. is_float (((table_fields soup (main_indicators soup))
                (''nome_empresa_completo'' \<mapsto> Str n)) k))
     (map snd main_indicators_mapping @
      [''ebit_12m'', ''lucro_liquido_12m'', ''receita_liquida_12m'',
       ''ativo_circulante'', ''passivo_circulante'', ''ativo_imobilizado_liquido'',
       ''patrimonio_liquido_total''])"
  using main_indicators_facts [of soup]
    table_fields_patrimonio [of "main_indicators soup" soup, OF main_indicators_patrimonio]
  by (simp add: main_indicators_mapping_def table_fields_float table_fields_other)

lemma extract_financial_data_shape:
  "\<exists>a b c d e f.
     extract_financial_data soup =
       Inr (((table_fields soup (main_indicators soup))
               (''nome_empresa_completo'' \<mapsto> Str (nome_empresa soup)))
             (''greenblatt_nwc_calculado'' \<mapsto> Num a,
              ''greenblatt_nfa_usado'' \<mapsto> Num b,
              ''greenblatt_ebit_usado'' \<mapsto> Num c,
              ''greenblatt_ev_usado'' \<mapsto> Num d,
              ''greenblatt_earnings_yield'' \<mapsto> Num e,
              ''greenblatt_return_on_capital'' \<mapsto> Num f))"
  unfolding extract_financial_data_def
  using base_record_float [of soup "nome_empresa soup"]
  by (intro greenblatt_fields_total) (simp_all add: main_indicators_mapping_def)

text \<open>
  C9, as the code has it. For every page the assembler returns a record (no step of it
  raises) in which every catalog key and every derived income-statement, balance-sheet
  and Greenblatt key is present and a float, a catalog key whose label or value was not
  found being 0.0; the company-name key is present and a string, \<^verbatim>\<open>N/A\<close> when the
  name was not found.
\<close>

theorem financial_record_complete:
  "\<exists>data. extract_financial_data soup = Inr data
      \<and> list_all (\<lambda>k. is_float (data k)) float_keys
      \<and> data ''nome_empresa_completo'' = Some (Str (nome_empresa soup))
      \<and> list_all (\<lambda>lk. text_to_convert (txt_spans soup) (fst lk) = None
                        \<longrightarrow> data (snd lk) = Some (Num 0)) main_indicators_mapping
      \<and> (empresa_span soup = None \<longrightarrow> data ''nome_empresa_completo'' = Some (Str ''N/A''))"
proof -
  let ?D = "(table_fields soup (main_indicators soup))
              (''nome_empresa_completo'' \<mapsto> Str (nome_empresa soup))"
  note b = base_record_float [of soup "nome_empresa soup"]
  from extract_financial_data_shape [of soup]
  obtain a b' c d e f where g: "extract_financial_data soup =
       Inr (?D(''greenblatt_nwc_calculado'' \<mapsto> Num a,
                 ''greenblatt_nfa_usado'' \<mapsto> Num b',
                 ''greenblatt_ebit_usado'' \<mapsto> Num c,
                 ''greenblatt_ev_usado'' \<mapsto> Num d,
                 ''greenblatt_earnings_yield'' \<mapsto> Num e,
                 ''greenblatt_return_on_capital'' \<mapsto> Num f))"
    by (elim exE)
  let ?R = "?D(''greenblatt_nwc_calculado'' \<mapsto> Num a,
                 ''greenblatt_nfa_usado'' \<mapsto> Num b',
                 ''greenblatt_ebit_usado'' \<mapsto> Num c,
                 ''greenblatt_ev_usado'' \<mapsto> Num d,
                 ''greenblatt_earnings_yield'' \<mapsto> Num e,
                 ''greenblatt_return_on_capital'' \<mapsto> Num f)"
  have 1: "list_all (\<lambda>k. is_float (?R k)) float_keys"
    using b by (simp add: float_keys_def derived_float_keys_def main_indicators_mapping_def
        del: fun_upd_apply)
  have 2: "?R ''nome_empresa_completo'' = Some (Str (nome_empresa soup))"
    by simp
  have 3: "list_all (\<lambda>lk. text_to_convert (txt_spans soup) (fst lk) = None
                        \<longrightarrow> ?R (snd lk) = Some (Num 0)) main_indicators_mapping"
    using main_indicators_facts [of soup]
    by (simp add: main_indicators_mapping_def table_fields_other)
  have 4: "empresa_span soup = None \<longrightarrow> ?R ''nome_empresa_completo'' = Some (Str ''N/A'')"
    by (simp add: nome_empresa_def)
  show ?thesis by (rule exI [of _ ?R]) (intro conjI g 1 2 3 4)
qed

theorem financial_record_complete_witness:
  "list_all (\<lambda>lk. text_to_convert (txt_spans empty_soup) (fst lk) = None) main_indicators_mapping
   \<and> empresa_span empty_soup = None
   \<and> (\<exists>data. extract_financial_data empty_soup = Inr data
         \<and> list_all (\<lambda>k. is_float (data k)) float_keys
         \<and> list_all (\<lambda>lk. data (snd lk) = Some (Num 0)) main_indicators_mapping
         \<and> data ''nome_empresa_completo'' = Some (Str ''N/A''))"
proof -
  have h1: "list_all (\<lambda>lk. text_to_convert (txt_spans empty_soup) (fst lk) = None)
      main_indicators_mapping"
    by (simp add: list_all_iff empty_soup_def text_to_convert_def)
  have h2: "empresa_span empty_soup = None" by (simp add: empty_soup_def)
  from financial_record_complete [of empty_soup] obtain data where
    d: "extract_financial_data empty_soup = Inr data
      \<and> list_all (\<lambda>k. is_float (data k)) float_keys
      \<and> data ''nome_empresa_completo'' = Some (Str (nome_empresa empty_soup))
      \<and> list_all (\<lambda>lk. text_to_convert (txt_spans empty_soup) (fst lk) = None
                        \<longrightarrow> data (snd lk) = Some (Num 0)) main_indicators_mapping
      \<and> (empresa_span empty_soup = None
            \<longrightarrow> data ''nome_empresa_completo'' = Some (Str ''N/A''))"
    by (rule exE)
  note d1 = d [THEN conjunct1]
  note d2 = d [THEN conjunct2, THEN conjunct1]
  note d4 = d [THEN conjunct2, THEN conjunct2, THEN conjunct2, THEN conjunct1]
  note d5 = d [THEN conjunct2, THEN conjunct2, THEN conjunct2, THEN conjunct2]
  from d4 h1 have z: "list_all (\<lambda>lk. data (snd lk) = Some (Num 0)) main_indicators_mapping"
    by (simp add: list_all_iff)
  from d5 h2 have nm: "data ''nome_empresa_completo'' = Some (Str ''N/A'')" by (rule mp)
  have ex: "\<exists>data. extract_financial_data empty_soup = Inr data
         \<and> list_all (\<lambda>k. is_float (data k)) float_keys
         \<and> list_all (\<lambda>lk. data (snd lk) = Some (Num 0)) main_indicators_mapping
         \<and> data ''nome_empresa_completo'' = Some (Str ''N/A'')"
    by (rule exI [of _ data]) (intro conjI d1 d2 z nm)
  show ?thesis by (intro conjI h1 h2 ex)
qed

text \<open>
  C9 as stated fails: on a page where nothing is found the company-name key holds the
  string \<^verbatim>\<open>N/A\<close>, not the float 0.0.
\<close>

theorem company_name_counterexample:
  "entry_of (extract_financial_data empty_soup) ''nome_empresa_completo'' = Some (Str ''N/A'')
   \<and> \<not> is_float (entry_of (extract_financial_data empty_soup) ''nome_empresa_completo'')"
proof -
  from extract_financial_data_shape [of empty_soup]
  obtain a b c d e f where g: "extract_financial_data empty_soup =
       Inr (((table_fields empty_soup (main_indicators empty_soup))
               (''nome_empresa_completo'' \<mapsto> Str (nome_empresa empty_soup)))
             (''greenblatt_nwc_calculado'' \<mapsto> Num a,
              ''greenblatt_nfa_usado'' \<mapsto> Num b,
              ''greenblatt_ebit_usado'' \<mapsto> Num c,
              ''greenblatt_ev_usado'' \<mapsto> Num d,
              ''greenblatt_earnings_yield'' \<mapsto> Num e,
              ''greenblatt_return_on_capital'' \<mapsto> Num f))"
    by (elim exE)
  have "nome_empresa empty_soup = ''N/A''"
    by (simp add: nome_empresa_def empty_soup_def)
  then show ?thesis by (simp add: g entry_of_def is_float_def)
qed

section \<open>The valuation models\<close>

subsection \<open>Rounding to cents\<close>

lemma round_half_even_eq:
  assumes "of_int n - 1 / 2 < x" "x < of_int n + 1 / 2"
  shows "round_half_even x = n"
proof -
  have "\<lfloor>x\<rfloor> = n \<or> \<lfloor>x\<rfloor> = n - 1" using assms by linarith
  then show ?thesis
  proof
    assume f: "\<lfloor>x\<rfloor> = n"
    then have "x - of_int n < 1 / 2" using assms by linarith
    with f show ?thesis by (simp add: round_half_even_def Let_def)
  next
    assume f: "\<lfloor>x\<rfloor> = n - 1"
    then have "1 / 2 < x - of_int (n - 1)" using assms by simp
    with f show ?thesis by (simp add: round_half_even_def Let_def)
  qed
qed

lemma round_half_even_nonneg: "0 \<le> x \<Longrightarrow> 0 \<le> round_half_even x"
  by (auto simp: round_half_even_def Let_def)

lemma py_round2_nonneg: "0 \<le> x \<Longrightarrow> 0 \<le> py_round2 x"
  by (simp add: py_round2_def round_half_even_nonneg)

lemma py_round2_exact: "py_round2 (of_int k / 100) = of_int k / 100"
  by (simp add: py_round2_def round_half_even_def)

lemma py_round2_sqrt:
  assumes "(of_int n - 1 / 2)\<^sup>2 < 10000 * x" "10000 * x < (of_int n + 1 / 2)\<^sup>2" "0 < n"
  shows "py_round2 (sqrt x) = of_int n / 100"
proof -
  have x: "0 \<le> x" using assms(1) by (smt (verit) zero_le_power2)
  have e: "sqrt x * 100 = sqrt (10000 * x)" by (simp add: real_sqrt_mult)
  have a: "of_int n - 1 / 2 < sqrt (10000 * x)"
    using assms(1) by (rule real_less_rsqrt)
  have b: "sqrt (10000 * x) < of_int n + 1 / 2"
    using assms(2,3) by (intro real_less_lsqrt) auto
  have "round_half_even (sqrt x * 100) = n"
    unfolding e using a b by (rule round_half_even_eq)
  then show ?thesis by (simp add: py_round2_def)
qed

subsection \<open>Float operations\<close>

lemma exact_ops_simps:
  "rnd exact_ops x = x"
  "fsum exact_ops xs = sum_list xs"
  "fl_lit exact_ops x = x"
  "fl_add exact_ops a b = a + b"
  "fl_sub exact_ops a b = a - b"
  "fl_mul exact_ops a b = a * b"
  "fl_div exact_ops a b = a / b"
  "fl_round2 exact_ops x = py_round2 x"
  by (simp_all add: exact_ops_def fl_lit_def fl_add_def fl_sub_def fl_mul_def fl_div_def
      fl_round2_def)

lemma sum_list_pos_weights:
  "ws \<noteq> [] \<Longrightarrow> (\<forall>w \<in> set ws. 0 < w) \<Longrightarrow> 0 < sum_list (ws :: real list)"
  by (induction ws) (auto intro: add_pos_nonneg sum_list_nonneg less_imp_le)

lemma float_arith_exact: "float_arith exact_ops"
proof -
  have "0 < sum_list xs" if "xs \<noteq> []" "\<forall>x \<in> set xs. 1 / 8 \<le> x" for xs :: "real list"
  proof (rule sum_list_pos_weights [OF that(1)], rule ballI)
    fix w assume "w \<in> set xs"
    with that(2) have "1 / 8 \<le> w" by simp
    then show "0 < w" by simp
  qed
  then show ?thesis
    by (simp add: float_arith_def exact_ops_def sum_list_nonneg)
qed

lemma rnd_mono: "float_arith F \<Longrightarrow> x \<le> y \<Longrightarrow> rnd F x \<le> rnd F y"
  by (simp add: float_arith_def)

lemma rnd_nonneg:
  assumes "float_arith F" "0 \<le> x"
  shows "0 \<le> rnd F x"
proof -
  have "rnd F 0 \<le> rnd F x" using assms by (rule rnd_mono)
  moreover have "rnd F 0 = 0" using assms(1) by (simp add: float_arith_def)
  ultimately show ?thesis by simp
qed

lemma rnd_eighth:
  assumes "float_arith F" "1 / 8 \<le> x"
  shows "1 / 8 \<le> rnd F x"
proof -
  have "rnd F (1 / 8) \<le> rnd F x" using assms by (rule rnd_mono)
  moreover have "rnd F (1 / 8) = 1 / 8" using assms(1) by (simp add: float_arith_def)
  ultimately show ?thesis by simp
qed

lemma fsum_nonneg: "float_arith F \<Longrightarrow> (\<And>x. x \<in> set xs \<Longrightarrow> 0 \<le> x) \<Longrightarrow> 0 \<le> fsum F xs"
  by (simp add: float_arith_def)

lemma fsum_pos:
  "float_arith F \<Longrightarrow> xs \<noteq> [] \<Longrightarrow> (\<And>x. x \<in> set xs \<Longrightarrow> 1 / 8 \<le> x) \<Longrightarrow> 0 < fsum F xs"
  by (simp add: float_arith_def)

lemma fl_nonneg:
  assumes "float_arith F"
  shows "0 \<le> x \<Longrightarrow> 0 \<le> fl_lit F x"
    and "0 \<le> a \<Longrightarrow> 0 \<le> b \<Longrightarrow> 0 \<le> fl_add F a b"
    and "0 \<le> a \<Longrightarrow> 0 \<le> b \<Longrightarrow> 0 \<le> fl_mul F a b"
    and "0 \<le> a \<Longrightarrow> 0 \<le> b \<Longrightarrow> 0 \<le> fl_div F a b"
    and "0 \<le> x \<Longrightarrow> 0 \<le> fl_round2 F x"
  using assms
  by (simp_all add: fl_lit_def fl_add_def fl_mul_def fl_div_def fl_round2_def rnd_nonneg
      py_round2_nonneg)

lemma fl_lit_eighth: "float_arith F \<Longrightarrow> 1 / 8 \<le> x \<Longrightarrow> 1 / 8 \<le> fl_lit F x"
  unfolding fl_lit_def by (rule rnd_eighth)

subsection \<open>The four models\<close>

lemma graham_model_float:
  assumes "float_arith F"
  shows "graham_model F lpa vpa =
           (if lpa > 0 \<and> vpa > 0
            then fl_round2 F (rnd F (sqrt (fl_mul F (fl_mul F (fl_lit F 22.5) lpa) vpa)))
            else 0)"
proof (cases "lpa > 0 \<and> vpa > 0")
  case True
  have "0 \<le> fl_lit F 22.5" using assms by (simp add: fl_nonneg)
  with True have "0 \<le> fl_mul F (fl_mul F (fl_lit F 22.5) lpa) vpa"
    using assms by (simp add: fl_nonneg)
  then have "\<not> fl_mul F (fl_mul F (fl_lit F 22.5) lpa) vpa < 0" by linarith
  with True show ?thesis by (simp add: graham_model_def fl_sqrt_def)
next
  case False
  then show ?thesis by (auto simp: graham_model_def)
qed

lemma graham_model_eq:
  "graham_model exact_ops lpa vpa
     = (if lpa > 0 \<and> vpa > 0 then py_round2 (sqrt (22.5 * lpa * vpa)) else 0)"
  by (simp add: graham_model_float [OF float_arith_exact] exact_ops_simps)

lemma graham_model_nonneg: "float_arith F \<Longrightarrow> 0 \<le> graham_model F lpa vpa"
  by (simp add: graham_model_float fl_nonneg rnd_nonneg)

lemma bind_err_truediv:
  "bind_err (fl_truediv F a b) f = (if b = 0 then Inl ZeroDivisionError else f (fl_div F a b))"
  by (simp add: fl_truediv_def)

lemma ddm_model_eq:
  assumes "float_arith F"
  shows "ddm_model F price yield roe eps = Inr (ddm_formula F price yield roe eps)"
proof -
  define dpa where "dpa = fl_mul F price yield"
  define p where "p = fl_div F dpa eps"
  define g where "g = fl_mul F roe (fl_sub F 1 p)"
  define r where "r = fl_lit F 0.12"
  define den where "den = fl_sub F r g"
  define v where "v = fl_round2 F
      (min (max (fl_div F (fl_mul F dpa (fl_add F 1 g)) den) 0) (fl_mul F price 5))"
  define A where "A \<longleftrightarrow> price > 0 \<and> yield > 0 \<and> roe > 0 \<and> eps \<noteq> 0"
  define B where "B \<longleftrightarrow> 0 \<le> p \<and> p \<le> 1"
  define C where "C \<longleftrightarrow> r > g \<and> g \<ge> 0"
  define D where "D \<longleftrightarrow> den > fl_lit F (1 / 1000000)"
  have m: "ddm_model F price yield roe eps =
      (if A then (if eps = 0 then Inl ZeroDivisionError
                  else if B then if C then if D
                    then (if den = 0 then Inl ZeroDivisionError else Inr v)
                    else Inr 0 else Inr 0 else Inr 0)
       else Inr 0)"
    unfolding ddm_model_def bind_err_truediv Let_def A_def B_def C_def D_def v_def den_def
      r_def g_def p_def dpa_def
    by (rule refl)
  have f: "ddm_formula F price yield roe eps = (if A \<and> B \<and> C \<and> D then v else 0)"
    unfolding ddm_formula_def Let_def A_def B_def C_def D_def v_def den_def
      r_def g_def p_def dpa_def
    by (simp only: conj_assoc)
  have e: "eps \<noteq> 0" if A using that by (simp add: A_def)
  have "0 \<le> fl_lit F (1 / 1000000)" using assms by (simp add: fl_nonneg)
  then have d: "den \<noteq> 0" if D using that by (simp add: D_def)
  show ?thesis unfolding m f
    by (cases A; cases B; cases C; cases D; simp add: e d)
qed

lemma ddm_model_price_zero: "ddm_model F 0 yield roe eps = Inr 0"
  by (simp add: ddm_model_def)

lemma ddm_formula_price_nonpos: "price \<le> 0 \<Longrightarrow> ddm_formula F price y r e = 0"
  by (simp add: ddm_formula_def Let_def)

lemma ddm_formula_nonneg:
  assumes "float_arith F"
  shows "0 \<le> ddm_formula F price yield roe eps"
proof (cases "price > 0")
  case True
  then have "0 \<le> fl_mul F price 5" using assms by (simp add: fl_nonneg)
  then show ?thesis
    using assms by (auto simp: ddm_formula_def Let_def intro!: fl_nonneg(5))
next
  case False
  then show ?thesis by (simp add: ddm_formula_price_nonpos)
qed

lemma pe_adjusted_nonneg:
  assumes "float_arith F" "0 \<le> lpa"
  shows "0 \<le> pe_adjusted_model F lpa roe liq"
proof -
  define s0 :: real
    where "s0 = (if roe > fl_lit F 0.15 then 3 else if roe > fl_lit F 0.10 then 2 else 0)"
  define sc where "sc = (if liq > fl_lit F 1.5 then s0 + 2 else s0)"
  have m: "pe_adjusted_model F lpa roe liq
      = fl_round2 F (fl_mul F lpa (min (fl_add F 8 (fl_mul F sc (fl_lit F 1.5))) 25))"
    unfolding pe_adjusted_model_def Let_def sc_def s0_def by (rule refl)
  have "0 \<le> s0" by (simp add: s0_def)
  then have "0 \<le> sc" by (simp add: sc_def)
  moreover have "0 \<le> fl_lit F 1.5" using assms(1) by (simp add: fl_nonneg)
  ultimately have "0 \<le> fl_mul F sc (fl_lit F 1.5)" using assms(1) by (simp add: fl_nonneg)
  then have "0 \<le> fl_add F 8 (fl_mul F sc (fl_lit F 1.5))"
    using assms(1) by (simp add: fl_nonneg)
  then have "0 \<le> min (fl_add F 8 (fl_mul F sc (fl_lit F 1.5))) 25" by simp
  then have "0 \<le> fl_mul F lpa (min (fl_add F 8 (fl_mul F sc (fl_lit F 1.5))) 25)"
    using assms by (intro fl_nonneg(3))
  then show ?thesis unfolding m using assms(1) by (intro fl_nonneg(5))
qed

lemma pvp_adjusted_nonneg:
  assumes "float_arith F" "0 \<le> vpa"
  shows "0 \<le> pvp_adjusted_model F vpa roe"
proof -
  define mp where "mp = (if roe > fl_lit F 0.20 then fl_lit F 2.5
             else if roe > fl_lit F 0.15 then fl_lit F 2.0
             else if roe > fl_lit F 0.10 then fl_lit F 1.5 else fl_lit F 1.0)"
  have m: "pvp_adjusted_model F vpa roe = fl_round2 F (fl_mul F vpa mp)"
    unfolding pvp_adjusted_model_def Let_def mp_def by (rule refl)
  have "0 \<le> mp" using assms(1) by (simp add: mp_def fl_nonneg)
  then have "0 \<le> fl_mul F vpa mp" using assms by (intro fl_nonneg(3))
  then show ?thesis unfolding m using assms(1) by (intro fl_nonneg(5))
qed

subsection \<open>The weighted mean\<close>

lemma positive_models_eq:
  "positive_models res ws =
     map (\<lambda>kw. (get_or res (fst kw) 0, snd kw)) (filter (\<lambda>kw. get_or res (fst kw) 0 > 0) ws)"
  by (induction ws) (auto simp: get_or_def Let_def)

lemma weighted_terms_eq:
  "T \<noteq> 0 \<Longrightarrow>
   weighted_terms F vw T = Inr (map (\<lambda>p. fl_mul F (fst p) (fl_div F (snd p) T)) vw)"
  by (induction vw) (auto simp: fl_truediv_def)

lemma positive_weights_eighth:
  assumes "float_arith F" "kw \<in> set (positive_weights F res)"
  shows "1 / 8 \<le> snd kw"
proof -
  have a: "1 / 8 \<le> fl_lit F (3 / 10)" by (rule fl_lit_eighth [OF assms(1)]) simp
  have b: "1 / 8 \<le> fl_lit F (1 / 5)" by (rule fl_lit_eighth [OF assms(1)]) simp
  have "kw \<in> set (model_weights F)" using assms(2) by (simp add: positive_weights_def)
  then have "snd kw = fl_lit F (3 / 10) \<or> snd kw = fl_lit F (1 / 5)"
    by (auto simp: model_weights_def)
  then show ?thesis using a b by auto
qed

lemma positive_weights_pos:
  assumes "float_arith F" "kw \<in> set (positive_weights F res)"
  shows "0 < snd kw"
  using positive_weights_eighth [OF assms] by simp

lemma positive_weights_value: "kw \<in> set (positive_weights F res) \<Longrightarrow> 0 < get_or res (fst kw) 0"
  by (simp add: positive_weights_def)

lemma positive_weights_total:
  assumes "float_arith F" "positive_weights F res \<noteq> []"
  shows "0 < fsum F (map snd (positive_weights F res))"
  using assms by (intro fsum_pos) (auto dest: positive_weights_eighth)

lemma weighted_average_none:
  "positive_weights F res = [] \<Longrightarrow> weighted_average F res = Inr 0"
  by (simp add: weighted_average_def positive_models_eq positive_weights_def Let_def)

lemma weighted_average_eq:
  assumes "float_arith F"
  shows "weighted_average F res = Inr (weighted_mean F res)"
proof (cases "positive_weights F res = []")
  case True
  then show ?thesis by (simp add: weighted_average_none weighted_mean_def)
next
  case False
  let ?P = "positive_weights F res"
  let ?T = "fsum F (map snd ?P)"
  have pm: "positive_models res (model_weights F)
      = map (\<lambda>kw. (get_or res (fst kw) 0, snd kw)) ?P"
    by (simp add: positive_models_eq positive_weights_def)
  have T: "0 < ?T" using assms False by (rule positive_weights_total)
  then have "?T \<noteq> 0" by linarith
  then have wt: "weighted_terms F (map (\<lambda>kw. (get_or res (fst kw) 0, snd kw)) ?P) ?T
      = Inr (map (\<lambda>kw. fl_mul F (get_or res (fst kw) 0) (fl_div F (snd kw) ?T)) ?P)"
    by (simp add: weighted_terms_eq comp_def)
  show ?thesis using False T wt
    by (simp add: weighted_average_def weighted_mean_def pm Let_def comp_def)
qed

lemma weighted_mean_nonneg:
  assumes "float_arith F"
  shows "0 \<le> weighted_mean F res"
proof (cases "positive_weights F res = []")
  case True
  then show ?thesis by (simp add: weighted_mean_def)
next
  case False
  let ?P = "positive_weights F res"
  let ?T = "fsum F (map snd ?P)"
  have T: "0 < ?T" using assms False by (rule positive_weights_total)
  have "0 \<le> fl_mul F (get_or res (fst kw) 0) (fl_div F (snd kw) ?T)" if "kw \<in> set ?P" for kw
  proof -
    have "0 < get_or res (fst kw) 0" using that by (rule positive_weights_value)
    moreover have "0 < snd kw" using assms that by (rule positive_weights_pos)
    ultimately show ?thesis using assms T by (simp add: fl_nonneg)
  qed
  then have "0 \<le> fsum F (map (\<lambda>kw. fl_mul F (get_or res (fst kw) 0) (fl_div F (snd kw) ?T)) ?P)"
    using assms by (intro fsum_nonneg) auto
  then show ?thesis using False assms
    by (simp add: weighted_mean_def Let_def fl_nonneg)
qed



lemma weighted_mean_average_key:
  "weighted_mean F (res(''average'' \<mapsto> a)) = weighted_mean F res"
  by (simp add: weighted_mean_def positive_weights_def model_weights_def get_or_def)

subsection \<open>The whole function on a numeric record\<close>

lemma calculate_fair_price_numeric:
  assumes "float_arith F" "numeric_at data valuation_fields"
  shows "calculate_fair_price F data =
           Inr ((model_values F data)(''average'' \<mapsto> weighted_mean F (model_values F data)))"
proof -
  have g: "\<And>k. k \<in> set valuation_fields \<Longrightarrow> get_float data k = Inr (field data k)"
    using assms(2) by (rule get_float_numeric)
  have d: "ddm_formula F (field data ''cotacao_atual'') 0 (field data ''roe'')
             (field data ''lucro_por_acao'')
         = ddm_formula F (field data ''cotacao_atual'') (field data ''dividend_yield'')
             (field data ''roe'') (field data ''lucro_por_acao'')"
    if "\<not> field data ''cotacao_atual'' > 0"
    using that by (simp add: ddm_formula_price_nonpos)
  show ?thesis
    by (simp add: calculate_fair_price_def g valuation_fields_def ddm_model_eq [OF assms(1)]
        weighted_average_eq [OF assms(1)] model_values_def Let_def d)
qed

lemma calculate_fair_price_entries:
  assumes "float_arith F" "numeric_at data valuation_fields"
  shows "\<exists>res. calculate_fair_price F data = Inr res
     \<and> res ''graham'' = Some (graham_model F (field data ''lucro_por_acao'')
                               (field data ''valor_patrimonial_acao''))
     \<and> res ''ddm'' = Some (ddm_formula F (field data ''cotacao_atual'')
                            (field data ''dividend_yield'') (field data ''roe'')
                            (field data ''lucro_por_acao''))
     \<and> res ''pe_adjusted'' = Some (pe_adjusted_model F (field data ''lucro_por_acao'')
                                    (field data ''roe'') (field data ''liquidez_corrente''))
     \<and> res ''pvp_adjusted'' = Some (pvp_adjusted_model F (field data ''valor_patrimonial_acao'')
                                     (field data ''roe''))
     \<and> res ''average'' = Some (weighted_mean F res)"
  by (simp add: calculate_fair_price_numeric [OF assms] weighted_mean_average_key)
     (simp add: model_values_def)

subsection \<open>The Graham model\<close>

lemma graham_2_10: "graham_model exact_ops 2 10 = 21.21"
proof -
  have "py_round2 (sqrt 450) = of_int 2121 / 100"
    by (rule py_round2_sqrt) (simp_all add: power2_eq_square)
  then show ?thesis by (simp add: graham_model_eq)
qed

text \<open>
  C6. The Graham value is \<^verbatim>\<open>round(sqrt(22.5 * eps * bvps), 2)\<close> when both inputs are
  strictly positive and 0.0 otherwise (the \<^verbatim>\<open>ValueError\<close> branch is never taken), in
  float arithmetic and in exact arithmetic alike; for 2.0 and 10.0 it is 21.21; and it
  is the entry \<^verbatim>\<open>graham\<close> of the result of \<^verbatim>\<open>calculate_fair_price\<close> on a numeric
  record.
\<close>

theorem graham_model_correct:
  "(float_arith F \<longrightarrow>
      graham_model F eps bvps
        = (if eps > 0 \<and> bvps > 0
           then fl_round2 F (rnd F (sqrt (fl_mul F (fl_mul F (fl_lit F 22.5) eps) bvps)))
           else 0))
   \<and> graham_model exact_ops eps bvps
       = (if eps > 0 \<and> bvps > 0 then py_round2 (sqrt (22.5 * eps * bvps)) else 0)
   \<and> graham_model exact_ops 2.0 10.0 = 21.21
   \<and> (float_arith F \<and> numeric_at data valuation_fields \<longrightarrow>
        (\<exists>res. calculate_fair_price F data = Inr res
           \<and> res ''graham'' = Some (graham_model F (field data ''lucro_por_acao'')
                                     (field data ''valor_patrimonial_acao''))))"
proof (intro conjI impI)
  assume "float_arith F"
  then show "graham_model F eps bvps
        = (if eps > 0 \<and> bvps > 0
           then fl_round2 F (rnd F (sqrt (fl_mul F (fl_mul F (fl_lit F 22.5) eps) bvps)))
           else 0)"
    by (rule graham_model_float)
next
  show "graham_model exact_ops eps bvps
     = (if eps > 0 \<and> bvps > 0 then py_round2 (sqrt (22.5 * eps * bvps)) else 0)"
    by (rule graham_model_eq)
  have "graham_model exact_ops 2.0 10.0 = graham_model exact_ops 2 10" by simp
  then show "graham_model exact_ops 2.0 10.0 = 21.21" by (simp only: graham_2_10)
next
  assume "float_arith F \<and> numeric_at data valuation_fields"
  then have "float_arith F" "numeric_at data valuation_fields" by simp_all
  from calculate_fair_price_entries [OF this]
  show "\<exists>res. calculate_fair_price F data = Inr res
           \<and> res ''graham'' = Some (graham_model F (field data ''lucro_por_acao'')
                                     (field data ''valor_patrimonial_acao''))"
    by blast
qed

theorem graham_model_correct_witness:
  "float_arith exact_ops
   \<and> numeric_at [''lucro_por_acao'' \<mapsto> Num 2.0, ''valor_patrimonial_acao'' \<mapsto> Num 10.0]
       valuation_fields
   \<and> (\<exists>res. calculate_fair_price exact_ops
               [''lucro_por_acao'' \<mapsto> Num 2.0, ''valor_patrimonial_acao'' \<mapsto> Num 10.0] = Inr res
          \<and> res ''graham'' = Some 21.21)"
proof -
  let ?d = "[''lucro_por_acao'' \<mapsto> Num 2.0, ''valor_patrimonial_acao'' \<mapsto> Num 10.0]"
  have n: "numeric_at ?d valuation_fields"
    by (simp add: numeric_at_def valuation_fields_def)
  note t = graham_model_correct [of exact_ops 2 10 ?d]
  have f: "field ?d ''lucro_por_acao'' = 2.0" "field ?d ''valor_patrimonial_acao'' = 10.0"
    by (simp_all add: field_def)
  from t n float_arith_exact obtain res where r: "calculate_fair_price exact_ops ?d = Inr res"
    "res ''graham'' = Some (graham_model exact_ops (field ?d ''lucro_por_acao'')
                              (field ?d ''valor_patrimonial_acao''))"
    by blast
  from t have v: "graham_model exact_ops 2.0 10.0 = 21.21" by blast
  from r(2) have "res ''graham'' = Some 21.21" by (simp only: f v)
  with n r(1) float_arith_exact show ?thesis by blast
qed

subsection \<open>The dividend-discount model\<close>

lemma ddm_example: "ddm_formula exact_ops 10 0.05 0.1 1 = 7.5"
proof -
  have "ddm_formula exact_ops 10 0.05 0.1 1 = py_round2 7.5"
    by (simp add: ddm_formula_def Let_def exact_ops_simps)
  also have "\<dots> = 7.5" by (simp add: py_round2_def round_half_even_def Let_def)
  finally show ?thesis .
qed

text \<open>
  C4. The dividend-discount block never raises (neither division meets a zero
  divisor): it returns 0.0 when a precondition fails, in particular for a price of 0,
  and otherwise the quotient clamped to the interval from 0 to five times the price and
  rounded; and this is the entry \<^verbatim>\<open>ddm\<close> of the result on a numeric record. The
  payout, the growth and the quotient are the floats the code computes, so the
  preconditions are tested on rounded values, as the code tests them.
\<close>

theorem ddm_model_correct:
  "(float_arith F \<longrightarrow>
      ddm_model F price yield roe eps = Inr (ddm_formula F price yield roe eps))
   \<and> ddm_model F 0 yield roe eps = Inr 0
   \<and> (float_arith F \<and> numeric_at data valuation_fields \<longrightarrow>
        (\<exists>res. calculate_fair_price F data = Inr res
           \<and> res ''ddm'' = Some (ddm_formula F (field data ''cotacao_atual'')
                                  (field data ''dividend_yield'') (field data ''roe'')
                                  (field data ''lucro_por_acao''))))"
proof (intro conjI impI)
  assume "float_arith F"
  then show "ddm_model F price yield roe eps = Inr (ddm_formula F price yield roe eps)"
    by (rule ddm_model_eq)
next
  show "ddm_model F 0 yield roe eps = Inr 0"
    by (rule ddm_model_price_zero)
next
  assume "float_arith F \<and> numeric_at data valuation_fields"
  then have "float_arith F" "numeric_at data valuation_fields" by simp_all
  from calculate_fair_price_entries [OF this]
  show "\<exists>res. calculate_fair_price F data = Inr res
           \<and> res ''ddm'' = Some (ddm_formula F (field data ''cotacao_atual'')
                                  (field data ''dividend_yield'') (field data ''roe'')
                                  (field data ''lucro_por_acao''))"
    by blast
qed

theorem ddm_model_correct_witness:
  "float_arith exact_ops
   \<and> numeric_at [''cotacao_atual'' \<mapsto> Num 10, ''dividend_yield'' \<mapsto> Num 0.05,
               ''roe'' \<mapsto> Num 0.1, ''lucro_por_acao'' \<mapsto> Num 1] valuation_fields
   \<and> ddm_model exact_ops 10 0.05 0.1 1 = Inr 7.5
   \<and> (\<exists>res. calculate_fair_price exact_ops
               [''cotacao_atual'' \<mapsto> Num 10, ''dividend_yield'' \<mapsto> Num 0.05,
                ''roe'' \<mapsto> Num 0.1, ''lucro_por_acao'' \<mapsto> Num 1] = Inr res
          \<and> res ''ddm'' = Some 7.5)"
proof -
  let ?d = "[''cotacao_atual'' \<mapsto> Num 10, ''dividend_yield'' \<mapsto> Num 0.05,
             ''roe'' \<mapsto> Num 0.1, ''lucro_por_acao'' \<mapsto> Num 1]"
  have n: "numeric_at ?d valuation_fields"
    by (simp add: numeric_at_def valuation_fields_def)
  have f: "field ?d ''cotacao_atual'' = 10" "field ?d ''dividend_yield'' = 0.05"
    "field ?d ''roe'' = 0.1" "field ?d ''lucro_por_acao'' = 1"
    by (simp_all add: field_def)
  note t = ddm_model_correct [of exact_ops 10 "0.05" "0.1" 1 ?d]
  from t float_arith_exact
  have "ddm_model exact_ops 10 0.05 0.1 1 = Inr (ddm_formula exact_ops 10 0.05 0.1 1)"
    by blast
  then have m: "ddm_model exact_ops 10 0.05 0.1 1 = Inr 7.5" by (simp only: ddm_example)
  from t n float_arith_exact obtain res where
    r: "calculate_fair_price exact_ops ?d = Inr res"
    "res ''ddm'' = Some (ddm_formula exact_ops (field ?d ''cotacao_atual'')
        (field ?d ''dividend_yield'') (field ?d ''roe'') (field ?d ''lucro_por_acao''))"
    by blast
  from r(2) have "res ''ddm'' = Some 7.5" by (simp only: f ddm_example)
  with n m r(1) float_arith_exact show ?thesis by blast
qed

subsection \<open>The composite average\<close>

lemma numeric_synth: "numeric_at synthetic_record valuation_fields"
  by (simp add: numeric_at_def valuation_fields_def synthetic_record_def)




subsection \<open>The synthetic record\<close>

lemma graham_synth: "graham_model exact_ops 1.5 12 = 20.12"
proof -
  have "py_round2 (sqrt 405) = of_int 2012 / 100"
    by (rule py_round2_sqrt) (simp_all add: power2_eq_square)
  then show ?thesis by (simp add: graham_model_eq)
qed

lemma pe_synth: "pe_adjusted_model exact_ops 1.5 0.18 2 = 23.25"
  using py_round2_exact [of 2325]
  by (simp add: pe_adjusted_model_def Let_def exact_ops_simps)

lemma pvp_synth: "pvp_adjusted_model exact_ops 12 0.18 = 24"
  using py_round2_exact [of 2400]
  by (simp add: pvp_adjusted_model_def Let_def exact_ops_simps)

lemma model_values_synth:
  "model_values exact_ops synthetic_record =
     [''graham'' \<mapsto> 20.12, ''ddm'' \<mapsto> 0, ''pe_adjusted'' \<mapsto> 23.25, ''pvp_adjusted'' \<mapsto> 24]"
proof -
  have "model_values exact_ops synthetic_record =
     [''graham'' \<mapsto> graham_model exact_ops 1.5 12, ''ddm'' \<mapsto> 0,
      ''pe_adjusted'' \<mapsto> pe_adjusted_model exact_ops 1.5 0.18 2,
      ''pvp_adjusted'' \<mapsto> pvp_adjusted_model exact_ops 12 0.18]"
    by (simp add: model_values_def synthetic_record_def field_def ddm_formula_def)
  then show ?thesis by (simp only: graham_synth pe_synth pvp_synth)
qed

lemma round_22: "py_round2 22.26375 = 22.26"
  by (simp add: py_round2_def round_half_even_def Let_def)

lemma mean_synth:
  "weighted_mean exact_ops [''graham'' \<mapsto> 20.12, ''ddm'' \<mapsto> 0, ''pe_adjusted'' \<mapsto> 23.25,
                  ''pvp_adjusted'' \<mapsto> 24] = 22.26"
proof -
  have "weighted_mean exact_ops [''graham'' \<mapsto> 20.12, ''ddm'' \<mapsto> 0, ''pe_adjusted'' \<mapsto> 23.25,
                  ''pvp_adjusted'' \<mapsto> 24] = py_round2 22.26375"
    by (simp add: weighted_mean_def positive_weights_def model_weights_def get_or_def Let_def
        exact_ops_simps)
  then show ?thesis by (simp only: round_22)
qed

lemma synthetic_result:
  "calculate_fair_price exact_ops synthetic_record =
     Inr [''graham'' \<mapsto> 20.12, ''ddm'' \<mapsto> 0, ''pe_adjusted'' \<mapsto> 23.25,
          ''pvp_adjusted'' \<mapsto> 24, ''average'' \<mapsto> 22.26]"
proof -
  have "calculate_fair_price exact_ops synthetic_record =
      Inr ((model_values exact_ops synthetic_record)
             (''average'' \<mapsto> weighted_mean exact_ops (model_values exact_ops synthetic_record)))"
    by (rule calculate_fair_price_numeric [OF float_arith_exact numeric_synth])
  then show ?thesis by (simp only: model_values_synth mean_synth)
qed

text \<open>
  C2, as the code has it. On the synthetic record the result is graham 20.12, ddm 0.0,
  pe_adjusted 23.25, pvp_adjusted 24.0 (a ROE of 0.18 lies above 0.15, where the
  multiplier is 2.0) and average 22.26, the mean of the three positive models with the
  weights 0.3, 0.3, 0.2 over their sum 0.8. The values are those of exact arithmetic;
  none of them lies near a rounding tie.
\<close>

theorem synthetic_fair_prices:
  "calculate_fair_price exact_ops synthetic_record =
     Inr [''graham'' \<mapsto> 20.12, ''ddm'' \<mapsto> 0, ''pe_adjusted'' \<mapsto> 23.25,
          ''pvp_adjusted'' \<mapsto> 24, ''average'' \<mapsto> 22.26]
   \<and> py_round2 ((0.3 * 20.12 + 0.3 * 23.25 + 0.2 * 24) / (0.3 + 0.3 + 0.2)) = 22.26"
proof
  show "calculate_fair_price exact_ops synthetic_record =
     Inr [''graham'' \<mapsto> 20.12, ''ddm'' \<mapsto> 0, ''pe_adjusted'' \<mapsto> 23.25,
          ''pvp_adjusted'' \<mapsto> 24, ''average'' \<mapsto> 22.26]"
    by (rule synthetic_result)
  have "(0.3 * 20.12 + 0.3 * 23.25 + 0.2 * 24) / (0.3 + 0.3 + 0.2) = (22.26375 :: real)"
    by simp
  then show "py_round2 ((0.3 * 20.12 + 0.3 * 23.25 + 0.2 * 24) / (0.3 + 0.3 + 0.2)) = 22.26"
    by (simp only: round_22)
qed

text \<open>C2 as stated fails: the record's pvp_adjusted is not 18.0.\<close>

theorem synthetic_pvp_counterexample:
  "price_of (calculate_fair_price exact_ops synthetic_record) ''pvp_adjusted'' \<noteq> Some 18.0"
  by (simp add: synthetic_result price_of_def)

subsection \<open>Signs of the fair prices\<close>

text \<open>
  C3, as the code has it. On a numeric record the values graham, ddm and average are
  never negative; pe_adjusted is not negative when the earnings per share are not, and
  pvp_adjusted is not negative when the book value per share is not.
\<close>

theorem fair_prices_sign:
  "float_arith F \<and> numeric_at data valuation_fields \<longrightarrow>
     (\<exists>res g d p v a.
        calculate_fair_price F data = Inr res
        \<and> res ''graham'' = Some g \<and> res ''ddm'' = Some d \<and> res ''pe_adjusted'' = Some p
        \<and> res ''pvp_adjusted'' = Some v \<and> res ''average'' = Some a
        \<and> 0 \<le> g \<and> 0 \<le> d \<and> 0 \<le> a
        \<and> (0 \<le> field data ''lucro_por_acao'' \<longrightarrow> 0 \<le> p)
        \<and> (0 \<le> field data ''valor_patrimonial_acao'' \<longrightarrow> 0 \<le> v))"
proof
  assume "float_arith F \<and> numeric_at data valuation_fields"
  then have s: "float_arith F" and n: "numeric_at data valuation_fields" by simp_all
  from calculate_fair_price_entries [OF s n] obtain res where
    r: "calculate_fair_price F data = Inr res"
    "res ''graham'' = Some (graham_model F (field data ''lucro_por_acao'')
                               (field data ''valor_patrimonial_acao''))"
    "res ''ddm'' = Some (ddm_formula F (field data ''cotacao_atual'')
                            (field data ''dividend_yield'') (field data ''roe'')
                            (field data ''lucro_por_acao''))"
    "res ''pe_adjusted'' = Some (pe_adjusted_model F (field data ''lucro_por_acao'')
                                    (field data ''roe'') (field data ''liquidez_corrente''))"
    "res ''pvp_adjusted'' = Some (pvp_adjusted_model F (field data ''valor_patrimonial_acao'')
                                     (field data ''roe''))"
    "res ''average'' = Some (weighted_mean F res)"
    by blast
  show "\<exists>res g d p v a.
        calculate_fair_price F data = Inr res
        \<and> res ''graham'' = Some g \<and> res ''ddm'' = Some d \<and> res ''pe_adjusted'' = Some p
        \<and> res ''pvp_adjusted'' = Some v \<and> res ''average'' = Some a
        \<and> 0 \<le> g \<and> 0 \<le> d \<and> 0 \<le> a
        \<and> (0 \<le> field data ''lucro_por_acao'' \<longrightarrow> 0 \<le> p)
        \<and> (0 \<le> field data ''valor_patrimonial_acao'' \<longrightarrow> 0 \<le> v)"
    using r graham_model_nonneg [OF s] ddm_formula_nonneg [OF s] weighted_mean_nonneg [OF s]
      pe_adjusted_nonneg [OF s] pvp_adjusted_nonneg [OF s]
    by (intro exI conjI impI) (assumption | simp)+
qed

theorem fair_prices_sign_witness:
  "float_arith exact_ops
   \<and> numeric_at synthetic_record valuation_fields
   \<and> 0 \<le> field synthetic_record ''lucro_por_acao''
   \<and> 0 \<le> field synthetic_record ''valor_patrimonial_acao''
   \<and> (\<exists>res g d p v a.
        calculate_fair_price exact_ops synthetic_record = Inr res
        \<and> res ''graham'' = Some g \<and> res ''ddm'' = Some d \<and> res ''pe_adjusted'' = Some p
        \<and> res ''pvp_adjusted'' = Some v \<and> res ''average'' = Some a
        \<and> 0 \<le> g \<and> 0 \<le> d \<and> 0 \<le> a \<and> 0 \<le> p \<and> 0 \<le> v)"
proof -
  have f: "0 \<le> field synthetic_record ''lucro_por_acao''"
    "0 \<le> field synthetic_record ''valor_patrimonial_acao''"
    by (simp_all add: field_def synthetic_record_def)
  from fair_prices_sign [of exact_ops synthetic_record] float_arith_exact numeric_synth f
  show ?thesis by blast
qed

text \<open>
  C3 as stated fails: earnings per share of -1 give a pe_adjusted of -8.
\<close>

theorem negative_pe_counterexample:
  "price_of (calculate_fair_price exact_ops [''lucro_por_acao'' \<mapsto> Num (- 1)]) ''pe_adjusted''
     = Some (- 8)
   \<and> (- 8 :: real) < 0"
proof -
  let ?d = "[''lucro_por_acao'' \<mapsto> Num (- 1)]"
  have n: "numeric_at ?d valuation_fields"
    by (simp add: numeric_at_def valuation_fields_def)
  have "pe_adjusted_model exact_ops (- 1) 0 0 = py_round2 (- 8)"
    by (simp add: pe_adjusted_model_def Let_def exact_ops_simps)
  also have "\<dots> = - 8" by (simp add: py_round2_def round_half_even_def Let_def)
  finally have "pe_adjusted_model exact_ops (- 1) 0 0 = - 8" .
  then show ?thesis
    by (simp add: calculate_fair_price_numeric [OF float_arith_exact n] price_of_def
        model_values_def field_def)
qed

subsection \<open>The doubles\<close>

lemma round_half_even_int: "round_half_even (of_int k) = k"
  by (simp add: round_half_even_def)

lemma round_half_even_bounds:
  "\<lfloor>x\<rfloor> \<le> round_half_even x" "round_half_even x \<le> \<lfloor>x\<rfloor> + 1"
  by (auto simp: round_half_even_def Let_def)

lemma round_half_even_mono:
  assumes "x \<le> y"
  shows "round_half_even x \<le> round_half_even y"
proof (cases "\<lfloor>x\<rfloor> = \<lfloor>y\<rfloor>")
  case True
  then show ?thesis using assms by (auto simp: round_half_even_def Let_def)
next
  case False
  moreover have "\<lfloor>x\<rfloor> \<le> \<lfloor>y\<rfloor>" using assms by (rule floor_mono)
  ultimately have "\<lfloor>x\<rfloor> + 1 \<le> \<lfloor>y\<rfloor>" by simp
  with round_half_even_bounds(2) [of x] round_half_even_bounds(1) [of y]
  show ?thesis by linarith
qed

lemma round_half_even_minus: "round_half_even (- x) = - round_half_even x"
proof (cases "x = of_int \<lfloor>x\<rfloor>")
  case True
  then have "round_half_even (- x) = round_half_even (of_int (- \<lfloor>x\<rfloor>))" by simp
  also have "\<dots> = - \<lfloor>x\<rfloor>" by (rule round_half_even_int)
  also have "\<dots> = - round_half_even (of_int \<lfloor>x\<rfloor>)" by (simp only: round_half_even_int)
  finally show ?thesis using True by simp
next
  case False
  then have "\<lceil>x\<rceil> = \<lfloor>x\<rfloor> + 1" by (simp add: ceiling_altdef)
  then have f: "\<lfloor>- x\<rfloor> = - \<lfloor>x\<rfloor> - 1" by (simp add: ceiling_def)
  show ?thesis
    unfolding round_half_even_def Let_def f by auto
qed

lemma binade_unique:
  assumes "2 powr of_int k \<le> \<bar>x\<bar>" "\<bar>x\<bar> < 2 powr (of_int k + 1)"
  shows "x \<noteq> 0" "\<lfloor>log 2 \<bar>x\<bar>\<rfloor> = k"
proof -
  have "0 < (2::real) powr of_int k" by simp
  with assms(1) have p: "0 < \<bar>x\<bar>" by linarith
  then show "x \<noteq> 0" by simp
  from p assms show "\<lfloor>log 2 \<bar>x\<bar>\<rfloor> = k"
    by (simp add: floor_log_eq_powr_iff)
qed

lemma binade_exists:
  assumes "x \<noteq> 0"
  shows "2 powr of_int \<lfloor>log 2 \<bar>x\<bar>\<rfloor> \<le> \<bar>x\<bar>" "\<bar>x\<bar> < 2 powr (of_int \<lfloor>log 2 \<bar>x\<bar>\<rfloor> + 1)"
  using assms floor_log_eq_powr_iff [of "\<bar>x\<bar>" 2 "\<lfloor>log 2 \<bar>x\<bar>\<rfloor>"] by simp_all

lemma double_rnd_binade:
  assumes "2 powr of_int k \<le> \<bar>x\<bar>" "\<bar>x\<bar> < 2 powr (of_int k + 1)"
  shows "double_rnd x
    = of_int (round_half_even (x / 2 powr (of_int k - 52))) * 2 powr (of_int k - 52)"
  using binade_unique [OF assms] by (simp add: double_rnd_def Let_def)

lemma double_rnd_minus: "double_rnd (- x) = - double_rnd x"
  by (simp add: double_rnd_def Let_def round_half_even_minus)

lemma double_rnd_range:
  assumes "2 powr of_int k \<le> x" "x < 2 powr (of_int k + 1)"
  shows "2 powr of_int k \<le> double_rnd x" "double_rnd x \<le> 2 powr (of_int k + 1)"
proof -
  let ?u = "(2::real) powr (of_int k - 52)"
  have u: "0 < ?u" by simp
  have x: "\<bar>x\<bar> = x" using assms(1) by (smt (verit) powr_gt_zero)
  have r: "double_rnd x = of_int (round_half_even (x / ?u)) * ?u"
    using assms by (intro double_rnd_binade) (simp_all add: x)
  have lo: "2 powr of_int k / ?u = of_int (2 ^ 52)"
    by (simp add: powr_diff)
  have hi: "2 powr (of_int k + 1) / ?u = of_int (2 ^ 53)"
    by (simp add: powr_diff powr_add)
  have "of_int (2 ^ 52) \<le> x / ?u"
    unfolding lo [symmetric] using assms(1) u by (simp add: divide_right_mono)
  then have "round_half_even (of_int (2 ^ 52)) \<le> round_half_even (x / ?u)"
    by (rule round_half_even_mono)
  then have a: "(2 ^ 52 :: int) \<le> round_half_even (x / ?u)"
    by (simp only: round_half_even_int)
  have "x / ?u \<le> of_int (2 ^ 53)"
    unfolding hi [symmetric] using assms(2) u by (simp add: divide_right_mono)
  then have "round_half_even (x / ?u) \<le> round_half_even (of_int (2 ^ 53))"
    by (rule round_half_even_mono)
  then have b: "round_half_even (x / ?u) \<le> (2 ^ 53 :: int)"
    by (simp only: round_half_even_int)
  from a have "(of_int (2 ^ 52) :: real) \<le> of_int (round_half_even (x / ?u))"
    by (simp only: of_int_le_iff)
  then have "of_int (2 ^ 52) * ?u \<le> of_int (round_half_even (x / ?u)) * ?u"
    using u by (intro mult_right_mono) simp_all
  moreover have "of_int (2 ^ 52) * ?u = 2 powr of_int k"
    using lo u by (simp add: field_simps)
  ultimately show "2 powr of_int k \<le> double_rnd x" by (simp only: r)
  from b have "(of_int (round_half_even (x / ?u)) :: real) \<le> of_int (2 ^ 53)"
    by (simp only: of_int_le_iff)
  then have "of_int (round_half_even (x / ?u)) * ?u \<le> of_int (2 ^ 53) * ?u"
    using u by (intro mult_right_mono) simp_all
  moreover have "of_int (2 ^ 53) * ?u = 2 powr (of_int k + 1)"
    using hi u by (simp add: field_simps)
  ultimately show "double_rnd x \<le> 2 powr (of_int k + 1)" by (simp only: r)
qed

lemma double_rnd_pos:
  assumes "0 < x"
  shows "0 < double_rnd x"
proof -
  have x: "\<bar>x\<bar> = x" "x \<noteq> 0" using assms by simp_all
  from binade_exists [OF x(2)]
  have "2 powr of_int \<lfloor>log 2 x\<rfloor> \<le> double_rnd x"
    by (intro double_rnd_range) (simp_all add: x)
  moreover have "0 < (2::real) powr of_int \<lfloor>log 2 x\<rfloor>" by simp
  ultimately show ?thesis by linarith
qed

lemma double_rnd_mono_pos:
  assumes "0 < x" "x \<le> y"
  shows "double_rnd x \<le> double_rnd y"
proof -
  let ?ex = "\<lfloor>log 2 x\<rfloor>" and ?ey = "\<lfloor>log 2 y\<rfloor>"
  have y: "0 < y" using assms by linarith
  have ax: "\<bar>x\<bar> = x" "x \<noteq> 0" and ay: "\<bar>y\<bar> = y" "y \<noteq> 0" using assms y by simp_all
  have bx: "2 powr of_int ?ex \<le> x" "x < 2 powr (of_int ?ex + 1)"
    using binade_exists [OF ax(2)] by (simp_all add: ax)
  have by': "2 powr of_int ?ey \<le> y" "y < 2 powr (of_int ?ey + 1)"
    using binade_exists [OF ay(2)] by (simp_all add: ay)
  have "log 2 x \<le> log 2 y" using assms y by simp
  then have e: "?ex \<le> ?ey" by (rule floor_mono)
  show ?thesis
  proof (cases "?ex = ?ey")
    case True
    let ?u = "(2::real) powr (of_int ?ex - 52)"
    have u: "0 < ?u" by simp
    have rx: "double_rnd x = of_int (round_half_even (x / ?u)) * ?u"
      using assms(1) by (simp add: double_rnd_def Let_def)
    have ry: "double_rnd y = of_int (round_half_even (y / ?u)) * ?u"
      using y True by (simp add: double_rnd_def Let_def)
    have "x / ?u \<le> y / ?u" using assms(2) u by (simp add: divide_right_mono)
    then have "round_half_even (x / ?u) \<le> round_half_even (y / ?u)"
      by (rule round_half_even_mono)
    then have "of_int (round_half_even (x / ?u)) * ?u \<le> of_int (round_half_even (y / ?u)) * ?u"
      using u by (intro mult_right_mono) simp_all
    then show ?thesis by (simp only: rx ry)
  next
    case False
    with e have "of_int ?ex + 1 \<le> (of_int ?ey :: real)" by linarith
    then have "(2::real) powr (of_int ?ex + 1) \<le> 2 powr of_int ?ey"
      by (intro powr_mono) simp_all
    with double_rnd_range(2) [OF bx] double_rnd_range(1) [OF by']
    show ?thesis by linarith
  qed
qed

lemma double_rnd_zero: "double_rnd 0 = 0"
  by (simp add: double_rnd_def)

lemma double_rnd_mono:
  assumes "x \<le> y"
  shows "double_rnd x \<le> double_rnd y"
proof -
  consider "0 < x" | "y < 0" | "x \<le> 0" "0 \<le> y" by linarith
  then show ?thesis
  proof cases
    case 1
    then show ?thesis using assms by (rule double_rnd_mono_pos)
  next
    case 2
    then have "0 < - y" "- y \<le> - x" using assms by simp_all
    then have "double_rnd (- y) \<le> double_rnd (- x)" by (rule double_rnd_mono_pos)
    then show ?thesis by (simp add: double_rnd_minus)
  next
    case 3
    have "double_rnd x \<le> 0"
    proof (cases "x = 0")
      case True
      then show ?thesis by (simp add: double_rnd_zero)
    next
      case False
      with 3 have "0 < - x" by simp
      then have "0 < double_rnd (- x)" by (rule double_rnd_pos)
      then show ?thesis by (simp add: double_rnd_minus)
    qed
    moreover have "0 \<le> double_rnd y"
    proof (cases "y = 0")
      case True
      then show ?thesis by (simp add: double_rnd_zero)
    next
      case False
      with 3 have "0 < y" by simp
      then have "0 < double_rnd y" by (rule double_rnd_pos)
      then show ?thesis by simp
    qed
    ultimately show ?thesis by linarith
  qed
qed

lemma double_rnd_frac:
  assumes "2 ^ 52 \<le> \<bar>x\<bar> * 2 ^ n" "\<bar>x\<bar> * 2 ^ n < 2 ^ 53"
  shows "double_rnd x = of_int (round_half_even (x * 2 ^ n)) / 2 ^ n"
proof -
  let ?k = "52 - int n"
  have p: "(2::real) powr of_int ?k = 2 ^ 52 / 2 ^ n"
    by (simp add: powr_diff powr_realpow)
  have q: "(2::real) powr (of_int ?k + 1) = 2 ^ 53 / 2 ^ n"
    by (simp add: powr_diff powr_add powr_realpow)
  have u: "(2::real) powr (of_int ?k - 52) = 1 / 2 ^ n"
    by (simp add: powr_minus_divide powr_realpow)
  have a: "2 powr of_int ?k \<le> \<bar>x\<bar>"
    unfolding p using assms(1) by (simp add: field_simps)
  have b: "\<bar>x\<bar> < 2 powr (of_int ?k + 1)"
    unfolding q using assms(2) by (simp add: field_simps)
  show ?thesis
    unfolding double_rnd_binade [OF a b] u by simp
qed

lemma double_rnd_near:
  assumes "2 ^ 52 \<le> \<bar>x\<bar> * 2 ^ n" "\<bar>x\<bar> * 2 ^ n < 2 ^ 53"
    and "of_int m - 1 / 2 < x * 2 ^ n" "x * 2 ^ n < of_int m + 1 / 2"
  shows "double_rnd x = of_int m / 2 ^ n"
  unfolding double_rnd_frac [OF assms(1,2)] round_half_even_eq [OF assms(3,4)] by (rule refl)

lemma round_half_even_tie:
  assumes "x = of_int m - 1 / 2 \<or> x = of_int m + 1 / 2" "even m"
  shows "round_half_even x = m"
proof -
  have a: "\<lfloor>of_int m - 1 / 2 :: real\<rfloor> = m - 1" by linarith
  have b: "\<lfloor>of_int m + 1 / 2 :: real\<rfloor> = m" by linarith
  from assms show ?thesis
    by (auto simp: round_half_even_def Let_def a b)
qed

lemma double_rnd_tie:
  assumes "2 ^ 52 \<le> \<bar>x\<bar> * 2 ^ n" "\<bar>x\<bar> * 2 ^ n < 2 ^ 53"
    and "x * 2 ^ n = of_int m - 1 / 2 \<or> x * 2 ^ n = of_int m + 1 / 2" "even m"
  shows "double_rnd x = of_int m / 2 ^ n"
  unfolding double_rnd_frac [OF assms(1,2)] round_half_even_tie [OF assms(3,4)] by (rule refl)

lemma double_eighth: "double_rnd (1 / 8) = 1 / 8"
proof -
  have "double_rnd (1 / 8) = of_int (2 ^ 52) / 2 ^ 55"
    by (rule double_rnd_near) simp_all
  then show ?thesis by simp
qed

lemma double_sum_nonneg:
  "0 \<le> a \<Longrightarrow> (\<forall>x \<in> set xs. 0 \<le> x) \<Longrightarrow> 0 \<le> foldl (\<lambda>a b. double_rnd (a + b)) a xs"
proof (induction xs arbitrary: a)
  case Nil
  then show ?case by simp
next
  case (Cons x xs)
  then have "0 \<le> a + x" by simp
  then have "double_rnd 0 \<le> double_rnd (a + x)" by (rule double_rnd_mono)
  then have "0 \<le> double_rnd (a + x)" by (simp only: double_rnd_zero)
  with Cons show ?case by simp
qed

lemma double_sum_pos:
  assumes "0 \<le> a" "xs \<noteq> []" "\<forall>x \<in> set xs. 1 / 8 \<le> x"
  shows "1 / 8 \<le> foldl (\<lambda>a b. double_rnd (a + b)) a xs"
  using assms
proof (induction xs arbitrary: a)
  case Nil
  then show ?case by simp
next
  case (Cons x xs)
  then have "1 / 8 \<le> a + x" by simp
  then have "double_rnd (1 / 8) \<le> double_rnd (a + x)" by (rule double_rnd_mono)
  then have s: "1 / 8 \<le> double_rnd (a + x)" by (simp only: double_eighth)
  show ?case
  proof (cases "xs = []")
    case True
    with s show ?thesis by simp
  next
    case False
    from s have "0 \<le> double_rnd (a + x)" by simp
    from Cons.IH [OF this False] Cons.prems(3) show ?thesis by simp
  qed
qed

lemma double_sum_positive:
  "xs \<noteq> [] \<Longrightarrow> \<forall>x \<in> set xs. 1 / 8 \<le> x \<Longrightarrow> 0 < foldl (\<lambda>a b. double_rnd (a + b)) 0 xs"
  using double_sum_pos [of 0 xs] by simp

lemma double_rnd_sqrt:
  assumes "(of_int m - 1 / 2)\<^sup>2 < x * 4 ^ n" "x * 4 ^ n < (of_int m + 1 / 2)\<^sup>2"
    and "2 ^ 52 < m" "m < 2 ^ 53"
  shows "double_rnd (sqrt x) = of_int m / 2 ^ n"
proof -
  have m: "(2 ^ 52 :: real) < of_int m" "of_int m < (2 ^ 53 :: real)"
  proof -
    have "(of_int (2 ^ 52) :: real) < of_int m" using assms(3) by (simp only: of_int_less_iff)
    then show "(2 ^ 52 :: real) < of_int m" by simp
    have "(of_int m :: real) < of_int (2 ^ 53)" using assms(4) by (simp only: of_int_less_iff)
    then show "of_int m < (2 ^ 53 :: real)" by simp
  qed
  have x: "0 \<le> x * 4 ^ n" using assms(1) by (smt (verit) zero_le_power2)
  have "sqrt (x * 4 ^ n) = sqrt x * sqrt (4 ^ n)" by (rule real_sqrt_mult)
  also have "sqrt (4 ^ n) = (2::real) ^ n"
    unfolding real_sqrt_power by simp
  finally have e: "sqrt x * 2 ^ n = sqrt (x * 4 ^ n)" by simp
  have a: "of_int m - 1 / 2 < sqrt x * 2 ^ n"
    unfolding e using assms(1) by (rule real_less_rsqrt)
  have b: "sqrt x * 2 ^ n < of_int m + 1 / 2"
    unfolding e using assms(2) m by (intro real_less_lsqrt) simp_all
  have s: "0 \<le> sqrt x * 2 ^ n" unfolding e using x by simp
  have "0 \<le> x"
  proof (rule ccontr)
    assume "\<not> 0 \<le> x"
    then have "x * 4 ^ n < 0" by (intro mult_neg_pos) simp_all
    with x show False by simp
  qed
  then have abs: "\<bar>sqrt x\<bar> * 2 ^ n = sqrt x * 2 ^ n" by simp
  have ge: "of_int (m - 1) \<le> sqrt x * 2 ^ n" using a by simp
  have "(2 ^ 52 :: int) \<le> m - 1" using assms(3) by simp
  then have "(of_int (2 ^ 52) :: real) \<le> of_int (m - 1)" by (simp only: of_int_le_iff)
  with ge have lo: "2 ^ 52 \<le> \<bar>sqrt x\<bar> * 2 ^ n" unfolding abs by simp
  have "m + 1 \<le> (2 ^ 53 :: int)" using assms(4) by simp
  then have "(of_int (m + 1) :: real) \<le> of_int (2 ^ 53)" by (simp only: of_int_le_iff)
  with b have hi: "\<bar>sqrt x\<bar> * 2 ^ n < 2 ^ 53" unfolding abs by simp
  from lo hi a b show ?thesis by (rule double_rnd_near)
qed

text \<open>
  X3. The doubles are a float arithmetic in the sense of \<open>float_arith\<close>: rounding to
  the nearest double is monotone, 0 and 1/8 are doubles, a sum of non-negative numbers
  is not negative and a sum of one or more numbers from 1/8 upwards is positive. So the
  statements proved for every float arithmetic hold of the doubles.
\<close>

theorem doubles_float_arith: "float_arith double_ops"
  by (simp add: float_arith_def double_ops_def double_rnd_mono double_rnd_zero double_eighth
      double_sum_nonneg double_sum_positive)

theorem doubles_float_arith_witness:
  "(1 / 8 :: real) \<le> 3 / 10
   \<and> rnd double_ops (1 / 8) \<le> rnd double_ops (3 / 10)
   \<and> rnd double_ops 0 = 0 \<and> rnd double_ops (1 / 8) = 1 / 8
   \<and> 0 \<le> fsum double_ops [3 / 10, 1 / 5]
   \<and> 0 < fsum double_ops [3 / 10, 1 / 5]"
proof -
  note d = doubles_float_arith [unfolded float_arith_def]
  have le: "(1 / 8 :: real) \<le> 3 / 10" by simp
  from d have "\<forall>x y. x \<le> y \<longrightarrow> rnd double_ops x \<le> rnd double_ops y" by (rule conjunct1)
  then have "(1 / 8 :: real) \<le> 3 / 10 \<longrightarrow> rnd double_ops (1 / 8) \<le> rnd double_ops (3 / 10)"
    by (elim allE)
  with le have m: "rnd double_ops (1 / 8) \<le> rnd double_ops (3 / 10)" by (rule rev_mp)
  from d have z: "rnd double_ops 0 = 0"
    by (rule conjunct2 [THEN conjunct1])
  from d have e: "rnd double_ops (1 / 8) = 1 / 8"
    by (rule conjunct2 [THEN conjunct2, THEN conjunct1])
  from d have "\<forall>xs. (\<forall>x \<in> set xs. 0 \<le> x) \<longrightarrow> 0 \<le> fsum double_ops xs"
    by (rule conjunct2 [THEN conjunct2, THEN conjunct2, THEN conjunct1])
  then have "(\<forall>x \<in> set [3 / 10, 1 / 5 :: real]. 0 \<le> x) \<longrightarrow> 0 \<le> fsum double_ops [3 / 10, 1 / 5]"
    by (rule spec)
  then have n: "0 \<le> fsum double_ops [3 / 10, 1 / 5]" by simp
  from d have "\<forall>xs. xs \<noteq> [] \<and> (\<forall>x \<in> set xs. 1 / 8 \<le> x) \<longrightarrow> 0 < fsum double_ops xs"
    by (rule conjunct2 [THEN conjunct2, THEN conjunct2, THEN conjunct2])
  then have "[3 / 10, 1 / 5 :: real] \<noteq> [] \<and> (\<forall>x \<in> set [3 / 10, 1 / 5 :: real]. 1 / 8 \<le> x)
      \<longrightarrow> 0 < fsum double_ops [3 / 10, 1 / 5]"
    by (rule spec)
  then have p: "0 < fsum double_ops [3 / 10, 1 / 5]" by simp
  show ?thesis by (intro conjI le m z e n p)
qed

subsection \<open>Two records on which the rounding decides\<close>

lemma double_ops_simps:
  "rnd double_ops = double_rnd"
  "fsum double_ops xs = foldl (\<lambda>a b. double_rnd (a + b)) 0 xs"
  by (simp_all add: double_ops_def)

lemma ddm_full_payout_exact: "ddm_formula exact_ops 32.6 0.1 0.227 3.26 = 27.17"
proof -
  have "ddm_formula exact_ops 32.6 0.1 0.227 3.26 = py_round2 (163 / 6)"
    by (simp add: ddm_formula_def Let_def exact_ops_simps)
  also have "\<dots> = 27.17" by (simp add: py_round2_def round_half_even_def Let_def)
  finally show ?thesis .
qed

text \<open>
  X4. A full payout. With a price of 32.6, a yield of 0.1 and earnings per share of
  3.26 the payout is 1 in exact arithmetic and the model gives 27.17; in doubles the
  dividend is 3.2600000000000002, the payout 1.0000000000000002 is above 1, and the
  model gives 0.0.
\<close>

theorem ddm_full_payout:
  "ddm_model double_ops (double_rnd 32.6) (double_rnd 0.1) (double_rnd 0.227) (double_rnd 3.26)
     = Inr 0
   \<and> ddm_model exact_ops 32.6 0.1 0.227 3.26 = Inr 27.17"
proof -
  define c where "c = double_rnd 32.6"
  define y where "y = double_rnd 0.1"
  define r where "r = double_rnd 0.227"
  define l where "l = double_rnd 3.26"
  have c: "c = of_int 4588042120383693 / 2 ^ 47"
    unfolding c_def by (rule double_rnd_near) simp_all
  have y: "y = of_int 7205759403792794 / 2 ^ 56"
    unfolding y_def by (rule double_rnd_near) simp_all
  have r: "r = of_int 8178536923304821 / 2 ^ 55"
    unfolding r_def by (rule double_rnd_near) simp_all
  have l: "l = of_int 7340867392613908 / 2 ^ 51"
    unfolding l_def by (rule double_rnd_near) simp_all
  have dpa: "fl_mul double_ops c y = of_int 7340867392613909 / 2 ^ 51"
    unfolding fl_mul_def double_ops_simps by (rule double_rnd_near) (simp_all add: c y)
  have payout: "fl_div double_ops (fl_mul double_ops c y) l = of_int 4503599627370497 / 2 ^ 52"
    unfolding fl_div_def double_ops_simps dpa by (rule double_rnd_near) (simp_all add: l)
  have pos: "c > 0" "y > 0" "r > 0" "l \<noteq> 0" by (simp_all add: c y r l)
  have "ddm_model double_ops c y r l = Inr 0"
    unfolding ddm_model_def bind_err_truediv Let_def by (simp add: pos payout)
  then have a: "ddm_model double_ops (double_rnd 32.6) (double_rnd 0.1) (double_rnd 0.227)
      (double_rnd 3.26) = Inr 0"
    by (simp only: c_def y_def r_def l_def)
  have "ddm_model exact_ops 32.6 0.1 0.227 3.26 = Inr (ddm_formula exact_ops 32.6 0.1 0.227 3.26)"
    by (rule ddm_model_eq [OF float_arith_exact])
  then have b: "ddm_model exact_ops 32.6 0.1 0.227 3.26 = Inr 27.17"
    by (simp only: ddm_full_payout_exact)
  from a b show ?thesis by (rule conjI)
qed

lemma tie_mean_exact:
  "weighted_mean exact_ops [''graham'' \<mapsto> 1, ''ddm'' \<mapsto> 0, ''pe_adjusted'' \<mapsto> 2,
     ''pvp_adjusted'' \<mapsto> 1] = 1.38"
proof -
  have "weighted_mean exact_ops [''graham'' \<mapsto> 1, ''ddm'' \<mapsto> 0, ''pe_adjusted'' \<mapsto> 2,
     ''pvp_adjusted'' \<mapsto> 1] = py_round2 1.375"
    by (simp add: weighted_mean_def positive_weights_def model_weights_def get_or_def Let_def
        exact_ops_simps)
  also have "\<dots> = 1.38" by (simp add: py_round2_def round_half_even_def Let_def)
  finally show ?thesis .
qed

text \<open>
  X5. An average at a tie. With graham 1, pe_adjusted 2 and pvp_adjusted 1 the exact
  mean is 1.375 and rounds to 1.38; in doubles the sum of the three products is
  1.3749999999999998 and the average is 1.37.
\<close>

theorem average_below_tie:
  "weighted_average double_ops [''graham'' \<mapsto> 1, ''ddm'' \<mapsto> 0, ''pe_adjusted'' \<mapsto> 2,
     ''pvp_adjusted'' \<mapsto> 1] = Inr (double_rnd 1.37)
   \<and> weighted_average exact_ops [''graham'' \<mapsto> 1, ''ddm'' \<mapsto> 0, ''pe_adjusted'' \<mapsto> 2,
     ''pvp_adjusted'' \<mapsto> 1] = Inr 1.38"
proof -
  let ?res = "[''graham'' \<mapsto> 1, ''ddm'' \<mapsto> 0, ''pe_adjusted'' \<mapsto> 2,
     ''pvp_adjusted'' \<mapsto> (1 :: real)]"
  define w3 where "w3 = fl_lit double_ops (3 / 10)"
  define w2 where "w2 = fl_lit double_ops (1 / 5)"
  define T where "T = double_rnd (double_rnd (double_rnd w3 + w3) + w2)"
  define q3 where "q3 = fl_div double_ops w3 T"
  define q2 where "q2 = fl_div double_ops w2 T"
  define t1 where "t1 = fl_mul double_ops 1 q3"
  define t2 where "t2 = fl_mul double_ops 2 q3"
  define t3 where "t3 = fl_mul double_ops 1 q2"
  have w3: "w3 = of_int 5404319552844595 / 2 ^ 54"
    unfolding w3_def fl_lit_def double_ops_simps by (rule double_rnd_near) simp_all
  have w2: "w2 = of_int 7205759403792794 / 2 ^ 55"
    unfolding w2_def fl_lit_def double_ops_simps by (rule double_rnd_near) simp_all
  have a1: "double_rnd w3 = of_int 5404319552844595 / 2 ^ 54"
    by (rule double_rnd_near) (simp_all add: w3)
  have a2: "double_rnd (double_rnd w3 + w3) = of_int 5404319552844595 / 2 ^ 53"
    unfolding a1 by (rule double_rnd_near) (simp_all add: w3)
  have T: "T = of_int 7205759403792794 / 2 ^ 53"
    unfolding T_def a2 by (rule double_rnd_tie) (simp_all add: w2)
  have q3: "q3 = of_int 6755399441055743 / 2 ^ 54"
    unfolding q3_def fl_div_def double_ops_simps by (rule double_rnd_near) (simp_all add: w3 T)
  have q2: "q2 = of_int 4503599627370496 / 2 ^ 54"
    unfolding q2_def fl_div_def double_ops_simps by (rule double_rnd_near) (simp_all add: w2 T)
  have t1: "t1 = of_int 6755399441055743 / 2 ^ 54"
    unfolding t1_def fl_mul_def double_ops_simps by (rule double_rnd_near) (simp_all add: q3)
  have t2: "t2 = of_int 6755399441055743 / 2 ^ 53"
    unfolding t2_def fl_mul_def double_ops_simps by (rule double_rnd_near) (simp_all add: q3)
  have t3: "t3 = of_int 4503599627370496 / 2 ^ 54"
    unfolding t3_def fl_mul_def double_ops_simps by (rule double_rnd_near) (simp_all add: q2)
  have s1: "double_rnd t1 = of_int 6755399441055743 / 2 ^ 54"
    by (rule double_rnd_near) (simp_all add: t1)
  have s2: "double_rnd (double_rnd t1 + t2) = of_int 5066549580791807 / 2 ^ 52"
    unfolding s1 by (rule double_rnd_near) (simp_all add: t2)
  have s3: "double_rnd (double_rnd (double_rnd t1 + t2) + t3) = of_int 6192449487634431 / 2 ^ 52"
    unfolding s2 by (rule double_rnd_near) (simp_all add: t3)
  have cents: "py_round2 (of_int 6192449487634431 / 2 ^ 52) = 1.37"
    by (simp add: py_round2_def round_half_even_def Let_def)
  have pm: "positive_models ?res (model_weights double_ops) = [(1, w3), (2, w3), (1, w2)]"
    by (simp add: model_weights_def get_or_def w3_def w2_def)
  have tot: "fsum double_ops [w3, w3, w2] = T"
    by (simp add: double_ops_simps T_def)
  have Tpos: "0 < T" "T \<noteq> 0" by (simp_all add: T)
  have terms: "weighted_terms double_ops [(1, w3), (2, w3), (1, w2)] T = Inr [t1, t2, t3]"
    by (simp add: weighted_terms_eq [OF Tpos(2)] t1_def t2_def t3_def q3_def q2_def)
  have sum: "fsum double_ops [t1, t2, t3] = of_int 6192449487634431 / 2 ^ 52"
    by (simp add: double_ops_simps s3)
  have "weighted_average double_ops ?res
      = Inr (fl_round2 double_ops (of_int 6192449487634431 / 2 ^ 52))"
    unfolding weighted_average_def pm Let_def
    by (simp add: tot Tpos terms sum del: weighted_terms.simps)
  then have a: "weighted_average double_ops ?res = Inr (double_rnd 1.37)"
    by (simp only: fl_round2_def cents double_ops_simps)
  have "weighted_average exact_ops ?res = Inr (weighted_mean exact_ops ?res)"
    by (rule weighted_average_eq [OF float_arith_exact])
  then have b: "weighted_average exact_ops ?res = Inr 1.38"
    by (simp only: tie_mean_exact)
  from a b show ?thesis by (rule conjI)
qed

subsection \<open>The scenario values in doubles\<close>

lemma double_weights:
  "fl_lit double_ops (3 / 10) = of_int 5404319552844595 / 2 ^ 54"
  "fl_lit double_ops (1 / 5) = of_int 7205759403792794 / 2 ^ 55"
  unfolding fl_lit_def double_ops_simps by (rule double_rnd_near; simp)+

text \<open>
  X7. The Graham value of earnings per share 2.0 and book value 10.0 in doubles is
  21.21, the double nearest to it: the product is 450 without rounding and the root is
  21.213203435596427.
\<close>

theorem graham_doubles: "graham_model double_ops 2 10 = double_rnd 21.21"
proof -
  have fa: "float_arith double_ops"
    by (simp add: float_arith_def double_ops_def double_rnd_mono double_rnd_zero double_eighth
        double_sum_nonneg double_sum_positive)
  have l: "fl_lit double_ops 22.5 = of_int 6333186975989760 / 2 ^ 48"
    unfolding fl_lit_def double_ops_simps by (rule double_rnd_near) simp_all
  have p: "fl_mul double_ops (fl_lit double_ops 22.5) 2 = of_int 6333186975989760 / 2 ^ 47"
    unfolding fl_mul_def double_ops_simps l by (rule double_rnd_near) simp_all
  have p2: "fl_mul double_ops (fl_mul double_ops (fl_lit double_ops 22.5) 2) 10 = 450"
  proof -
    have "fl_mul double_ops (fl_mul double_ops (fl_lit double_ops 22.5) 2) 10
        = of_int 7916483719987200 / 2 ^ 44"
      unfolding fl_mul_def [of _ _ 10] double_ops_simps p by (rule double_rnd_near) simp_all
    then show ?thesis by simp
  qed
  have s: "double_rnd (sqrt 450) = of_int 5970985942992912 / 2 ^ 48"
    by (rule double_rnd_sqrt) (simp_all add: power2_eq_square)
  have c: "py_round2 (of_int 5970985942992912 / 2 ^ 48) = 21.21"
    by (simp add: py_round2_def round_half_even_def Let_def)
  have "graham_model double_ops 2 10
      = fl_round2 double_ops (rnd double_ops (sqrt
          (fl_mul double_ops (fl_mul double_ops (fl_lit double_ops 22.5) 2) 10)))"
    by (simp add: graham_model_float [OF fa])
  then show ?thesis
    by (simp only: p2 double_ops_simps s fl_round2_def c)
qed

text \<open>
  X6. The synthetic record in doubles (its ROE the double nearest to 0.18): graham
  20.12, ddm 0.0, pe_adjusted 23.25, pvp_adjusted 24.0 and average 22.26, the values of
  exact arithmetic, each the double nearest to it.
\<close>

theorem synthetic_doubles:
  "calculate_fair_price double_ops (synthetic_record(''roe'' \<mapsto> Num (double_rnd 0.18)))
     = Inr [''graham'' \<mapsto> double_rnd 20.12, ''ddm'' \<mapsto> 0, ''pe_adjusted'' \<mapsto> 23.25,
            ''pvp_adjusted'' \<mapsto> 24, ''average'' \<mapsto> double_rnd 22.26]"
proof -
  let ?d = "synthetic_record(''roe'' \<mapsto> Num (double_rnd 0.18))"
  have fa: "float_arith double_ops"
    by (simp add: float_arith_def double_ops_def double_rnd_mono double_rnd_zero double_eighth
        double_sum_nonneg double_sum_positive)
  have n: "numeric_at ?d valuation_fields"
    by (simp add: numeric_at_def valuation_fields_def synthetic_record_def)
  define roe where "roe = double_rnd 0.18"
  define G where "G = double_rnd 20.12"
  have roe: "roe = of_int 6485183463413514 / 2 ^ 55"
    unfolding roe_def by (rule double_rnd_near) simp_all
  have G: "G = of_int 5663276531418399 / 2 ^ 48"
    unfolding G_def by (rule double_rnd_near) simp_all
  have k15: "fl_lit double_ops (3 / 20) = of_int 5404319552844595 / 2 ^ 55"
    unfolding fl_lit_def double_ops_simps by (rule double_rnd_near) simp_all
  have k20: "fl_lit double_ops (1 / 5) = of_int 7205759403792794 / 2 ^ 55"
    by (rule double_weights)
  have exact: "double_rnd (3 / 2) = 3 / 2" "double_rnd (15 / 2) = 15 / 2"
    "double_rnd (31 / 2) = 31 / 2" "double_rnd (93 / 4) = 93 / 4" "double_rnd 2 = 2"
    "double_rnd 24 = 24" "double_rnd (45 / 2) = 45 / 2" "double_rnd (135 / 4) = 135 / 4"
    "double_rnd 405 = 405" "double_rnd 6 = 6"
  proof -
    have "double_rnd (3 / 2) = of_int 6755399441055744 / 2 ^ 52"
      by (rule double_rnd_near) simp_all
    then show "double_rnd (3 / 2) = 3 / 2" by simp
    have "double_rnd (15 / 2) = of_int 8444249301319680 / 2 ^ 50"
      by (rule double_rnd_near) simp_all
    then show "double_rnd (15 / 2) = 15 / 2" by simp
    have "double_rnd (31 / 2) = of_int 8725724278030336 / 2 ^ 49"
      by (rule double_rnd_near) simp_all
    then show "double_rnd (31 / 2) = 31 / 2" by simp
    have "double_rnd (93 / 4) = of_int 6544293208522752 / 2 ^ 48"
      by (rule double_rnd_near) simp_all
    then show "double_rnd (93 / 4) = 93 / 4" by simp
    have "double_rnd 2 = of_int 4503599627370496 / 2 ^ 51"
      by (rule double_rnd_near) simp_all
    then show "double_rnd 2 = 2" by simp
    have "double_rnd 24 = of_int 6755399441055744 / 2 ^ 48"
      by (rule double_rnd_near) simp_all
    then show "double_rnd 24 = 24" by simp
    have "double_rnd (45 / 2) = of_int 6333186975989760 / 2 ^ 48"
      by (rule double_rnd_near) simp_all
    then show "double_rnd (45 / 2) = 45 / 2" by simp
    have "double_rnd (135 / 4) = of_int 4749890231992320 / 2 ^ 47"
      by (rule double_rnd_near) simp_all
    then show "double_rnd (135 / 4) = 135 / 4" by simp
    have "double_rnd 405 = of_int 7124835347988480 / 2 ^ 44"
      by (rule double_rnd_near) simp_all
    then show "double_rnd 405 = 405" by simp
    have "double_rnd 6 = of_int 6755399441055744 / 2 ^ 50"
      by (rule double_rnd_near) simp_all
    then show "double_rnd 6 = 6" by simp
  qed
  have s: "double_rnd (sqrt 405) = of_int 5664574637011773 / 2 ^ 48"
    by (rule double_rnd_sqrt) (simp_all add: power2_eq_square)
  have c: "py_round2 (of_int 5664574637011773 / 2 ^ 48) = 20.12"
    by (simp add: py_round2_def round_half_even_def Let_def)
  have "graham_model double_ops (3 / 2) 12 = fl_round2 double_ops (double_rnd (sqrt 405))"
    by (simp add: graham_model_float [OF fa] fl_mul_def fl_lit_def double_ops_simps exact)
  then have g: "graham_model double_ops (3 / 2) 12 = G"
    by (simp only: s fl_round2_def c double_ops_simps G_def)
  have pe: "pe_adjusted_model double_ops (3 / 2) roe 2 = 93 / 4"
  proof -
    have r: "py_round2 (93 / 4) = 93 / 4"
      by (simp add: py_round2_def round_half_even_def Let_def)
    have "roe > fl_lit double_ops (3 / 20)" by (simp add: roe k15)
    then show ?thesis
      by (simp add: pe_adjusted_model_def Let_def fl_lit_def fl_mul_def fl_add_def
          fl_round2_def double_ops_simps exact r)
  qed
  have pvp: "pvp_adjusted_model double_ops 12 roe = 24"
  proof -
    have r: "py_round2 24 = 24"
      by (simp add: py_round2_def round_half_even_def Let_def)
    have a: "\<not> roe > fl_lit double_ops (1 / 5)" by (simp add: roe k20)
    have b: "roe > fl_lit double_ops (3 / 20)" by (simp add: roe k15)
    have "fl_lit double_ops 2 = 2" by (simp add: fl_lit_def double_ops_simps exact)
    with a b show ?thesis
      by (simp add: pvp_adjusted_model_def Let_def fl_mul_def fl_round2_def double_ops_simps
          exact r)
  qed
  have mv: "model_values double_ops ?d
      = [''graham'' \<mapsto> G, ''ddm'' \<mapsto> 0, ''pe_adjusted'' \<mapsto> 93 / 4, ''pvp_adjusted'' \<mapsto> 24]"
  proof -
    have "model_values double_ops ?d
      = [''graham'' \<mapsto> graham_model double_ops (3 / 2) 12, ''ddm'' \<mapsto> 0,
         ''pe_adjusted'' \<mapsto> pe_adjusted_model double_ops (3 / 2) roe 2,
         ''pvp_adjusted'' \<mapsto> pvp_adjusted_model double_ops 12 roe]"
      by (simp add: model_values_def synthetic_record_def field_def ddm_formula_def roe_def)
    then show ?thesis by (simp only: g pe pvp)
  qed
  let ?res = "[''graham'' \<mapsto> G, ''ddm'' \<mapsto> 0, ''pe_adjusted'' \<mapsto> 93 / 4,
               ''pvp_adjusted'' \<mapsto> (24 :: real)]"
  define w3 where "w3 = fl_lit double_ops (3 / 10)"
  define w2 where "w2 = fl_lit double_ops (1 / 5)"
  define T where "T = double_rnd (double_rnd (double_rnd w3 + w3) + w2)"
  define q3 where "q3 = fl_div double_ops w3 T"
  define q2 where "q2 = fl_div double_ops w2 T"
  define t1 where "t1 = fl_mul double_ops G q3"
  define t2 where "t2 = fl_mul double_ops (93 / 4) q3"
  define t3 where "t3 = fl_mul double_ops 24 q2"
  have w3: "w3 = of_int 5404319552844595 / 2 ^ 54"
    unfolding w3_def by (rule double_weights)
  have w2: "w2 = of_int 7205759403792794 / 2 ^ 55"
    unfolding w2_def by (rule double_weights)
  have a1: "double_rnd w3 = of_int 5404319552844595 / 2 ^ 54"
    by (rule double_rnd_near) (simp_all add: w3)
  have a2: "double_rnd (double_rnd w3 + w3) = of_int 5404319552844595 / 2 ^ 53"
    unfolding a1 by (rule double_rnd_near) (simp_all add: w3)
  have T: "T = of_int 7205759403792794 / 2 ^ 53"
    unfolding T_def a2 by (rule double_rnd_tie) (simp_all add: w2)
  have q3: "q3 = of_int 6755399441055743 / 2 ^ 54"
    unfolding q3_def fl_div_def double_ops_simps by (rule double_rnd_near) (simp_all add: w3 T)
  have q2: "q2 = of_int 4503599627370496 / 2 ^ 54"
    unfolding q2_def fl_div_def double_ops_simps by (rule double_rnd_near) (simp_all add: w2 T)
  have t1: "t1 = of_int 8494914797127597 / 2 ^ 50"
    unfolding t1_def fl_mul_def double_ops_simps by (rule double_rnd_near) (simp_all add: G q3)
  have t2: "t2 = of_int 4908219906392063 / 2 ^ 49"
    unfolding t2_def fl_mul_def double_ops_simps by (rule double_rnd_near) (simp_all add: q3)
  have t3: "t3 = of_int 6755399441055744 / 2 ^ 50"
    unfolding t3_def fl_mul_def double_ops_simps by (rule double_rnd_near) (simp_all add: q2)
  have s1: "double_rnd t1 = of_int 8494914797127597 / 2 ^ 50"
    by (rule double_rnd_near) (simp_all add: t1)
  have s2: "double_rnd (double_rnd t1 + t2) = of_int 4577838652477931 / 2 ^ 48"
    unfolding s1 by (rule double_rnd_near) (simp_all add: t2)
  have s3: "double_rnd (double_rnd (double_rnd t1 + t2) + t3) = of_int 6266688512741867 / 2 ^ 48"
    unfolding s2 by (rule double_rnd_near) (simp_all add: t3)
  have cents: "py_round2 (of_int 6266688512741867 / 2 ^ 48) = 22.26"
    by (simp add: py_round2_def round_half_even_def Let_def)
  have Gpos: "0 < G" by (simp add: G)
  have pw: "positive_weights double_ops ?res
      = [(''graham'', w3), (''pe_adjusted'', w3), (''pvp_adjusted'', w2)]"
    by (simp add: positive_weights_def model_weights_def get_or_def w3_def w2_def Gpos)
  have tot: "fsum double_ops [w3, w3, w2] = T"
    by (simp add: double_ops_simps T_def)
  have sum: "fsum double_ops [t1, t2, t3] = of_int 6266688512741867 / 2 ^ 48"
    by (simp add: double_ops_simps s3)
  have "weighted_mean double_ops ?res = fl_round2 double_ops (fsum double_ops [t1, t2, t3])"
    unfolding weighted_mean_def pw Let_def
    by (simp add: tot get_or_def t1_def t2_def t3_def q3_def q2_def)
  then have "weighted_mean double_ops ?res
      = fl_round2 double_ops (of_int 6266688512741867 / 2 ^ 48)"
    by (simp only: sum)
  then have wm: "weighted_mean double_ops ?res = double_rnd 22.26"
    by (simp only: fl_round2_def cents double_ops_simps(1))
  have "calculate_fair_price double_ops ?d
      = Inr ((model_values double_ops ?d)
               (''average'' \<mapsto> weighted_mean double_ops (model_values double_ops ?d)))"
    by (rule calculate_fair_price_numeric [OF fa n])
  then have "calculate_fair_price double_ops ?d
      = Inr [''graham'' \<mapsto> G, ''ddm'' \<mapsto> 0, ''pe_adjusted'' \<mapsto> 93 / 4, ''pvp_adjusted'' \<mapsto> 24,
             ''average'' \<mapsto> double_rnd 22.26]"
    by (simp only: mv wm)
  then show ?thesis by (simp add: G_def)
qed

section \<open>The recommendation scorer\<close>

subsection \<open>The risk level\<close>

lemma risk_recommend: "risk_level (fst (recommend r i st)) = risk_level (fst st)"
  by (simp add: recommend_def split: prod.splits)

lemma risk_add_strength: "risk_level (fst (add_strength n i st)) = risk_level (fst st)"
  by (simp add: add_strength_def split: prod.splits)

lemma risk_add_weakness: "risk_level (fst (add_weakness n i st)) = risk_level (fst st)"
  by (simp add: add_weakness_def split: prod.splits)

lemmas risk_simps = risk_recommend risk_add_strength risk_add_weakness

lemma risk_margin_tier: "risk_level (fst (margin_tier m st)) = risk_level (fst st)"
  by (simp add: margin_tier_def risk_simps)

lemma risk_valuation_step:
  "valuation_step F p c st = Inr st' \<Longrightarrow> risk_level (fst st') = risk_level (fst st)"
  by (auto simp: valuation_step_def py_truediv_def risk_simps risk_margin_tier
      split: if_splits)

lemma valuation_step_total: "\<exists>st'. valuation_step F p c st = Inr st'"
  by (simp add: valuation_step_def py_truediv_def)

lemma risk_steps:
  "risk_level (fst (roe_step F x st)) = risk_level (fst st)"
  "risk_level (fst (roic_step F x st)) = risk_level (fst st)"
  "risk_level (fst (pl_step F x st)) = risk_level (fst st)"
  "risk_level (fst (div_br_patrim_step F x st)) = risk_level (fst st)"
  "risk_level (fst (liq_corr_step F x st)) = risk_level (fst st)"
  "risk_level (fst (cres_receita_step F x st)) = risk_level (fst st)"
  by (simp_all add: roe_step_def roic_step_def pl_step_def div_br_patrim_step_def
      liq_corr_step_def cres_receita_step_def risk_simps)

lemma risk_finish: "risk_level (finish_analysis F data t st) = risk_level (fst st)"
  by (simp add: finish_analysis_def Let_def split: prod.splits)

text \<open>
  C10. Whatever the record, the fair prices and the ticker, an analysis that
  \<^verbatim>\<open>generate_investment_analysis\<close> returns has the risk level it was initialised with,
  the word MEDIO with an acute accent on the E (code point 0xC9); and
  the function does return one whenever the fields it reads are numbers.
\<close>

theorem risk_level_constant:
  "(\<forall>a. generate_investment_analysis F data fair_prices ticker = Inr a
        \<longrightarrow> risk_level a = ''M'' @ [CHR 0xC9] @ ''DIO'')
   \<and> (numeric_at data scorer_fields
        \<longrightarrow> (\<exists>a. generate_investment_analysis F data fair_prices ticker = Inr a))"
proof (intro conjI allI impI)
  fix a
  assume "generate_investment_analysis F data fair_prices ticker = Inr a"
  then show "risk_level a = ''M'' @ [CHR 0xC9] @ ''DIO''"
    by (auto simp: generate_investment_analysis_def Let_def bind_err_eq_Inr
        risk_finish risk_steps dest!: risk_valuation_step)
next
  assume n: "numeric_at data scorer_fields"
  have g: "\<And>k. k \<in> set scorer_fields \<Longrightarrow> get_float data k = Inr (field data k)"
    using n by (rule get_float_numeric)
  obtain st' where v:
    "valuation_step F (case fair_prices ''average'' of Some v \<Rightarrow> v | None \<Rightarrow> 0)
       (field data ''cotacao_atual'')
       (\<lparr>recommendation = ''NEUTRO'', risk_level = ''M'' @ [CHR 0xC9] @ ''DIO'',
         strengths = [], weaknesses = [], summary = [], score = 0\<rparr>, 0) = Inr st'"
    using valuation_step_total by blast
  show "\<exists>a. generate_investment_analysis F data fair_prices ticker = Inr a"
    using v by (simp add: generate_investment_analysis_def Let_def g scorer_fields_def)
qed

theorem risk_level_constant_witness:
  "numeric_at [''roe'' \<mapsto> Num 0.25] scorer_fields
   \<and> (\<exists>a. generate_investment_analysis plain_format [''roe'' \<mapsto> Num 0.25]
             [''average'' \<mapsto> 12] ''ABCD3'' = Inr a
          \<and> risk_level a = ''M'' @ [CHR 0xC9] @ ''DIO'')"
proof -
  have n: "numeric_at [''roe'' \<mapsto> Num 0.25] scorer_fields"
    by (simp add: numeric_at_def scorer_fields_def)
  note t = risk_level_constant [of plain_format "[''roe'' \<mapsto> Num 0.25]"
      "[''average'' \<mapsto> 12]" "''ABCD3''"]
  from t n obtain a where
    a: "generate_investment_analysis plain_format [''roe'' \<mapsto> Num 0.25]
          [''average'' \<mapsto> 12] ''ABCD3'' = Inr a"
    by blast
  with t have "risk_level a = ''M'' @ [CHR 0xC9] @ ''DIO''" by blast
  with n a show ?thesis by blast
qed

subsection \<open>The margin tiers\<close>

text \<open>
  C1. The chain tests \<^verbatim>\<open>discount_margin < -0.15\<close> before \<^verbatim>\<open>< -0.30\<close> and
  \<^verbatim>\<open>< -0.50\<close>, so the last two branches are never taken: every margin below -0.15
  is a weak sell with the increment -1. For a price of 10 and a fair value of 4 (a
  margin of -0.6, with the other indicators contributing nothing) the recommendation is
  \<^verbatim>\<open>VENDER FRACO\<close> and the score -1.
\<close>

theorem sell_tiers_unreachable:
  "margin_tier m st =
     (if m > 0.30 then recommend ''COMPRAR FORTE'' 3 st
      else if m > 0.15 then recommend ''COMPRAR'' 2 st
      else if m > 0.05 then recommend ''COMPRAR FRACO'' 1 st
      else if m < - 0.15 then recommend ''VENDER FRACO'' (- 1) st
      else st)
   \<and> (case generate_investment_analysis plain_format
              [''cotacao_atual'' \<mapsto> Num 10, ''divida_bruta_patrimonio'' \<mapsto> Num 0.7,
               ''liquidez_corrente'' \<mapsto> Num 1.5]
              [''average'' \<mapsto> 4] ''ABCD3'' of
         Inr a \<Rightarrow> recommendation a = ''VENDER FRACO'' \<and> score a = - 1
       | Inl e \<Rightarrow> False)"
proof
  show "margin_tier m st =
     (if m > 0.30 then recommend ''COMPRAR FORTE'' 3 st
      else if m > 0.15 then recommend ''COMPRAR'' 2 st
      else if m > 0.05 then recommend ''COMPRAR FRACO'' 1 st
      else if m < - 0.15 then recommend ''VENDER FRACO'' (- 1) st
      else st)"
    by (simp add: margin_tier_def)
  show "case generate_investment_analysis plain_format
              [''cotacao_atual'' \<mapsto> Num 10, ''divida_bruta_patrimonio'' \<mapsto> Num 0.7,
               ''liquidez_corrente'' \<mapsto> Num 1.5]
              [''average'' \<mapsto> 4] ''ABCD3'' of
         Inr a \<Rightarrow> recommendation a = ''VENDER FRACO'' \<and> score a = - 1
       | Inl e \<Rightarrow> False"
    by (simp add: generate_investment_analysis_def get_float_def valuation_step_def
        py_truediv_def margin_tier_def recommend_def add_strength_def add_weakness_def
        roe_step_def roic_step_def pl_step_def div_br_patrim_step_def liq_corr_step_def
        cres_receita_step_def finish_analysis_def plain_format_def Let_def)
qed

subsection \<open>The score and the tier boundary\<close>

lemma score_finish: "- 10 \<le> score (finish_analysis F data t st) \<and> score (finish_analysis F data t st) \<le> 10"
  by (simp add: finish_analysis_def Let_def split: prod.splits)

text \<open>
  X1. The score of every analysis that \<^verbatim>\<open>generate_investment_analysis\<close> returns lies
  between -10 and 10.
\<close>

theorem score_clamped:
  "generate_investment_analysis F data fair_prices ticker = Inr a
     \<longrightarrow> - 10 \<le> score a \<and> score a \<le> 10"
  by (auto simp: generate_investment_analysis_def Let_def bind_err_eq_Inr score_finish)

lemmas scorer_eval = generate_investment_analysis_def get_float_def valuation_step_def
  py_truediv_def margin_tier_def recommend_def add_strength_def add_weakness_def
  roe_step_def roic_step_def pl_step_def div_br_patrim_step_def liq_corr_step_def
  cres_receita_step_def finish_analysis_def plain_format_def Let_def

theorem score_clamped_witness:
  "(\<exists>a. generate_investment_analysis plain_format
            [''cotacao_atual'' \<mapsto> Num 10, ''roe'' \<mapsto> Num 0.25, ''roic'' \<mapsto> Num 0.2,
             ''preco_lucro'' \<mapsto> Num 5, ''liquidez_corrente'' \<mapsto> Num 3,
             ''cres_receita_5a'' \<mapsto> Num 0.2]
            [''average'' \<mapsto> 20] ''ABCD3'' = Inr a
        \<and> score a = 10)"
proof -
  let ?d = "[''cotacao_atual'' \<mapsto> Num 10, ''roe'' \<mapsto> Num 0.25, ''roic'' \<mapsto> Num 0.2,
             ''preco_lucro'' \<mapsto> Num 5, ''liquidez_corrente'' \<mapsto> Num 3,
             ''cres_receita_5a'' \<mapsto> Num 0.2]"
  have "\<exists>a. generate_investment_analysis plain_format ?d [''average'' \<mapsto> 20] ''ABCD3'' = Inr a
     \<and> 10 \<le> score a"
    by (simp add: scorer_eval)
  then obtain a where a: "generate_investment_analysis plain_format ?d [''average'' \<mapsto> 20] ''ABCD3'' = Inr a"
    "10 \<le> score a" by blast
  from score_clamped [of plain_format ?d "[''average'' \<mapsto> 20]" "''ABCD3''" a] a(1)
  have "score a \<le> 10" by blast
  with a show ?thesis by auto
qed

text \<open>
  X2. The strong-buy threshold is strict: with a price of 10, a fair value of 13.1 (a
  margin of 0.31) is a strong buy with the increment 3, and a fair value of 13 (a margin
  of exactly 0.30) is the next tier, a buy with the increment 2.
\<close>

theorem strong_buy_boundary:
  "(case generate_investment_analysis plain_format
           [''cotacao_atual'' \<mapsto> Num 10, ''divida_bruta_patrimonio'' \<mapsto> Num 0.7,
            ''liquidez_corrente'' \<mapsto> Num 1.5]
           [''average'' \<mapsto> 13.1] ''ABCD3'' of
      Inr a \<Rightarrow> recommendation a = ''COMPRAR FORTE'' \<and> score a = 3
    | Inl e \<Rightarrow> False)
   \<and> (case generate_investment_analysis plain_format
           [''cotacao_atual'' \<mapsto> Num 10, ''divida_bruta_patrimonio'' \<mapsto> Num 0.7,
            ''liquidez_corrente'' \<mapsto> Num 1.5]
           [''average'' \<mapsto> 13] ''ABCD3'' of
      Inr a \<Rightarrow> recommendation a = ''COMPRAR'' \<and> score a = 2
    | Inl e \<Rightarrow> False)"
  by (simp add: scorer_eval)

end
